theory Spec2Isabelle
  imports Main "HOL-Library.AList"
begin

section \<open>MediChain: the in-process engine (blockchain.js) and the contract (MediChain.sol)\<close>

text \<open>
  A shallow embedding of \<^verbatim>\<open>src/blockchain.js\<close> and of the parts of
  \<^verbatim>\<open>src/contracts/MediChain.sol\<close> that register, verify and look up a medicine.

  Conventions of the embedding.
  \<^item> A value that a caller hands to the engine (a batch number, a property of the object
    given to \<^verbatim>\<open>registerMedicine\<close>, an argument of \<^verbatim>\<open>transferMedicine\<close>, \<^verbatim>\<open>createAlert\<close> or
    \<^verbatim>\<open>search\<close>) is a \<open>jsv\<close>: the engine validates none of them, so each may be
    \<^verbatim>\<open>undefined\<close>, \<^verbatim>\<open>null\<close>, a boolean, a number or a string. What the engine produces
    itself (time stamps, hashes, the status) is a \<open>string\<close>; counters, indices and
    nonces are \<open>nat\<close> (they stay far below \<open>2^53\<close>, where JavaScript numbers stop being
    exact).
  \<^item> The built-ins the engine calls but does not define (the SHA-256 digest of the Web
    Crypto API, \<^verbatim>\<open>JSON.stringify\<close> of a payload, the \<^verbatim>\<open>Date\<close> parser, \<^verbatim>\<open>toLowerCase\<close>) are
    the fields of an environment \<open>env\<close> that every operation takes; all theorems hold
    for every environment.
  \<^item> Every reading of the clock or of \<^verbatim>\<open>Math.random\<close> is an input: an operation takes
    \<open>clk :: nat \<Rightarrow> clock\<close>, and its \<open>k\<close>-th reading site uses \<open>clk k\<close>.
  \<^item> The function for an \<^verbatim>\<open>async\<close> method is the method run from its call to its end
    with no other call of the engine in between, as when the caller awaits it before
    making the next call. It returns \<open>None\<close> when the proof-of-work loop never ends, and
    otherwise \<open>Some (r, s')\<close> where \<open>s'\<close> is the engine afterwards and \<open>r\<close> is \<open>Inl\<close> of
    the exception thrown or \<open>Inr\<close> of the value returned. Calls that are started while
    another one is suspended at an \<^verbatim>\<open>await\<close> are the subject of the section on
    overlapping calls.
  \<^item> The browser's \<^verbatim>\<open>localStorage\<close> item is part of the state. The item is a text; the
    model keeps, in its place, the value that \<^verbatim>\<open>JSON.parse\<close> returns for that text. So
    \<^verbatim>\<open>save\<close> stores what \<^verbatim>\<open>JSON.parse\<close> reads back from the text that
    \<^verbatim>\<open>JSON.stringify\<close> writes, which differs from the value written where JSON has
    no representation for it.
  \<^item> Event listeners (\<^verbatim>\<open>on\<close>/\<^verbatim>\<open>emit\<close>) are observers outside the engine and are left out.
\<close>

subsection \<open>Values and built-ins\<close>

text \<open>
  The JavaScript values of the model: \<^verbatim>\<open>undefined\<close>, \<^verbatim>\<open>null\<close>, the booleans, the
  non-negative integers, \<^verbatim>\<open>NaN\<close> and the strings. Negative numbers and fractions,
  objects and arrays as values of a caller are not modelled. The key of a \<^verbatim>\<open>Map\<close>
  is compared by SameValueZero, which on these values is equality.
\<close>

datatype jsv = Undefined | Null | Bool bool | Num nat | NaN | Str string

text \<open>
  An object is the list of its properties that have a value other than \<^verbatim>\<open>undefined\<close>:
  reading a property that is not in the list gives \<^verbatim>\<open>undefined\<close>, and
  \<^verbatim>\<open>JSON.stringify\<close> skips a property whose value is \<^verbatim>\<open>undefined\<close>. In a record of the
  model, a field of type \<open>jsv\<close> with the value \<open>Undefined\<close> is a property that is
  missing or \<^verbatim>\<open>undefined\<close>.
\<close>

type_synonym obj = "(string \<times> jsv) list"

datatype error = Error string | TypeError string

record env =
  subtle_digest :: "string \<Rightarrow> nat list"
  JSON_stringify :: "obj \<Rightarrow> string"
  Date_value :: "jsv \<Rightarrow> int option"
  toLowerCase :: "string \<Rightarrow> string"

record clock =
  Date_now :: nat
  toISOString :: string
  Math_random :: string

text \<open>The property \<^verbatim>\<open>k: v\<close> of an object literal.\<close>

definition property :: "string \<Rightarrow> jsv \<Rightarrow> obj" where
  "property k v = (if v = Undefined then [] else [(k, v)])"

text \<open>The values that count as true in a condition and under \<^verbatim>\<open>||\<close> and \<^verbatim>\<open>&&\<close>.\<close>

fun truthy :: "jsv \<Rightarrow> bool" where
  "truthy Undefined = False"
| "truthy Null = False"
| "truthy (Bool b) = b"
| "truthy (Num n) = (n \<noteq> 0)"
| "truthy NaN = False"
| "truthy (Str x) = (x \<noteq> [])"

definition digit :: "nat \<Rightarrow> char" where
  "digit n = ''0123456789abcdef'' ! n"

text \<open>
  \<^verbatim>\<open>Number.prototype.toString(radix)\<close> on a non-negative integer, for radix 10 and 16
  (below \<open>10^21\<close>, from where JavaScript writes a number with an exponent).
\<close>

function toString :: "nat \<Rightarrow> nat \<Rightarrow> string" where
  "toString radix n =
     (if n < radix \<or> radix < 2 then [digit n] else toString radix (n div radix) @ [digit (n mod radix)])"
  by pat_completeness auto
termination
  by (relation "measure (\<lambda>(radix, n). n)") auto

declare toString.simps [simp del]

text \<open>A value inside a template literal or a string concatenation.\<close>

fun tpl :: "jsv \<Rightarrow> string" where
  "tpl Undefined = ''undefined''"
| "tpl Null = ''null''"
| "tpl (Bool b) = (if b then ''true'' else ''false'')"
| "tpl (Num n) = toString 10 n"
| "tpl NaN = ''NaN''"
| "tpl (Str x) = x"

definition padStart :: "nat \<Rightarrow> char \<Rightarrow> string \<Rightarrow> string" where
  "padStart n c s = replicate (n - length s) c @ s"

subsection \<open>SHA-256 hashing\<close>

definition sha256 :: "env \<Rightarrow> string \<Rightarrow> string" where
  "sha256 E message =
     concat (map (\<lambda>b. padStart 2 (CHR ''0'') (toString 16 b)) (subtle_digest E message))"

subsection \<open>Block\<close>

record block =
  index :: nat
  timestamp :: string
  data :: obj
  previousHash :: string
  hash :: string
  nonce :: nat

definition Block :: "nat \<Rightarrow> string \<Rightarrow> obj \<Rightarrow> string \<Rightarrow> block" where
  "Block i ts d prev =
     \<lparr>index = i, timestamp = ts, data = d, previousHash = prev, hash = [], nonce = 0\<rparr>"

definition calculateHash :: "env \<Rightarrow> block \<Rightarrow> string" where
  "calculateHash E b =
     sha256 E (toString 10 (index b) @ previousHash b @ timestamp b
               @ JSON_stringify E (data b) @ toString 10 (nonce b))"

partial_function (option) mineBlock :: "env \<Rightarrow> nat \<Rightarrow> block \<Rightarrow> block option" where
  "mineBlock E difficulty b =
     (if take difficulty (hash b) \<noteq> replicate difficulty (CHR ''0'')
      then mineBlock E difficulty
             (b\<lparr>nonce := nonce b + 1,
                hash := calculateHash E (b\<lparr>nonce := nonce b + 1\<rparr>)\<rparr>)
      else Some b)"

subsection \<open>Transaction\<close>

record transaction =
  tx_id :: string
  tx_type :: string
  tx_data :: obj
  tx_from :: jsv
  tx_to :: jsv
  tx_timestamp :: string
  tx_hash :: string
  tx_blockNumber :: "nat option"
  tx_status :: string

text \<open>
  \<open>Math_random c\<close> is the reading \<^verbatim>\<open>Math.random().toString(36).substr(2, 8)\<close>.
\<close>

definition Transaction :: "clock \<Rightarrow> string \<Rightarrow> obj \<Rightarrow> jsv \<Rightarrow> transaction" where
  "Transaction c type d from =
     \<lparr>tx_id = ''tx_'' @ toString 10 (Date_now c) @ ''_'' @ Math_random c,
      tx_type = type, tx_data = d, tx_from = from, tx_to = Null,
      tx_timestamp = toISOString c, tx_hash = [], tx_blockNumber = None,
      tx_status = ''pending''\<rparr>"

definition generateHash :: "env \<Rightarrow> transaction \<Rightarrow> transaction" where
  "generateHash E tx =
     tx\<lparr>tx_hash := ''0x'' @ sha256 E (tx_id tx @ tx_type tx @ JSON_stringify E (tx_data tx)
                                      @ tx_timestamp tx)\<rparr>"

subsection \<open>The engine's data\<close>

record checkpoint =
  stage :: jsv
  actor :: jsv
  location :: jsv
  cp_timestamp :: string
  txHash :: string

record verification =
  v_timestamp :: string
  v_result :: string

text \<open>
  The argument of \<^verbatim>\<open>registerMedicine\<close>: the properties the engine reads, each of which
  may be missing or hold any value, and in \<open>extra\<close> the remaining properties of the
  caller's object, which the engine copies and never reads.
\<close>

record medicineData =
  batchNumber :: jsv
  medicineName :: jsv
  manufacturerId :: jsv
  manufacturerName :: jsv
  expiryDate :: jsv
  extra :: obj

record medicine = medicineData +
  registeredAt :: string
  status :: string
  scanCount :: nat
  supplyChain :: "checkpoint list option"
  verifications :: "verification list"
  blockHash :: "string option"
  blockNumber :: "nat option"

record alert =
  alert_id :: string
  alert_batchNumber :: jsv
  reason :: jsv
  alert_timestamp :: string
  severity :: string
  alert_status :: string

record scan =
  scan_batchNumber :: jsv
  scan_medicineName :: jsv
  scan_result :: string
  scan_timestamp :: string
  scan_reason :: "string option"

text \<open>
  The medicine map is a JavaScript \<^verbatim>\<open>Map\<close>: its entries in insertion order.
  \<^verbatim>\<open>has\<close> and \<^verbatim>\<open>get\<close> are \<open>map_of\<close>; \<^verbatim>\<open>set\<close> is \<open>AList.update\<close>, which replaces the
  value of a key in place and appends a new key at the end.
\<close>

type_synonym entries = "(jsv \<times> medicine) list"

text \<open>
  The document that \<^verbatim>\<open>JSON.parse\<close> returns for the stored text. Each property may be
  missing (\<open>None\<close>; \<^verbatim>\<open>null\<close> and the other values that \<^verbatim>\<open>||\<close> replaces by \<^verbatim>\<open>[]\<close>
  count as missing). The property \<^verbatim>\<open>medicines\<close> may also hold a value from which
  \<^verbatim>\<open>new Map\<close> cannot build a map (a number, an array with an element that is not an
  entry): \<open>NotEntries\<close>. For the other four properties a value that is neither
  missing nor an array would leave the engine with a chain that is not an array; the
  model does not represent such an engine.
\<close>

datatype parsed_entries = NoEntries | Entries entries | NotEntries

record document =
  doc_chain :: "block list option"
  doc_medicines :: parsed_entries
  doc_transactions :: "transaction list option"
  doc_alerts :: "alert list option"
  doc_scanHistory :: "scan list option"

text \<open>
  The item \<^verbatim>\<open>medichain_data\<close> of \<^verbatim>\<open>localStorage\<close>: absent (or the empty text), a text
  that \<^verbatim>\<open>JSON.parse\<close> rejects (or parses to \<^verbatim>\<open>null\<close>, whose properties cannot be
  read), or a text that it parses to a document.
\<close>

datatype stored = NoItem | Unparsable | Saved document

record engine =
  chain :: "block list"
  medicines :: entries
  transactions :: "transaction list"
  alerts :: "alert list"
  scanHistory :: "scan list"
  difficulty :: nat
  localStorage :: stored

type_synonym 'a outcome = "((error + 'a) \<times> engine) option"

text \<open>
  \<^verbatim>\<open>await\<close> of a method call: the caller goes on with the value, and an exception
  or a loop that never ends is the caller's as well.
\<close>

definition await :: "'a outcome \<Rightarrow> ('a \<Rightarrow> engine \<Rightarrow> 'b outcome) \<Rightarrow> 'b outcome" where
  "await m f =
     (case m of
        None \<Rightarrow> None
      | Some (Inl e, s) \<Rightarrow> Some (Inl e, s)
      | Some (Inr x, s) \<Rightarrow> f x s)"

definition constructor :: "stored \<Rightarrow> engine" where
  "constructor item =
     \<lparr>chain = [], medicines = [], transactions = [], alerts = [], scanHistory = [],
      difficulty = 2, localStorage = item\<rparr>"

subsection \<open>What JSON keeps of a value\<close>

text \<open>
  \<^verbatim>\<open>JSON.stringify\<close> followed by \<^verbatim>\<open>JSON.parse\<close>, on the values of the model. As the
  value of a property, \<^verbatim>\<open>NaN\<close> is written as \<^verbatim>\<open>null\<close>, and a property whose value is
  \<^verbatim>\<open>undefined\<close> is left out, so that it reads \<^verbatim>\<open>undefined\<close> afterwards as before. As
  an element of an array, \<^verbatim>\<open>undefined\<close> and \<^verbatim>\<open>NaN\<close> are both written as \<^verbatim>\<open>null\<close>.
  Strings, booleans, \<^verbatim>\<open>null\<close> and the integers come back as they were. The key of an
  entry \<^verbatim>\<open>[key, value]\<close> of the medicine map is an element of an array.
\<close>

definition JSON_value :: "jsv \<Rightarrow> jsv" where
  "JSON_value v = (if v = NaN then Null else v)"

definition JSON_element :: "jsv \<Rightarrow> jsv" where
  "JSON_element v = (if v = Undefined \<or> v = NaN then Null else v)"

definition JSON_object :: "obj \<Rightarrow> obj" where
  "JSON_object ps = map (\<lambda>(k, v). (k, JSON_value v)) ps"

definition JSON_block :: "block \<Rightarrow> block" where
  "JSON_block b = b\<lparr>data := JSON_object (data b)\<rparr>"

definition JSON_transaction :: "transaction \<Rightarrow> transaction" where
  "JSON_transaction t =
     t\<lparr>tx_data := JSON_object (tx_data t), tx_from := JSON_value (tx_from t),
       tx_to := JSON_value (tx_to t)\<rparr>"

definition JSON_checkpoint :: "checkpoint \<Rightarrow> checkpoint" where
  "JSON_checkpoint p =
     p\<lparr>stage := JSON_value (stage p), actor := JSON_value (actor p),
       location := JSON_value (location p)\<rparr>"

definition JSON_medicine :: "medicine \<Rightarrow> medicine" where
  "JSON_medicine m =
     m\<lparr>batchNumber := JSON_value (batchNumber m), medicineName := JSON_value (medicineName m),
       manufacturerId := JSON_value (manufacturerId m),
       manufacturerName := JSON_value (manufacturerName m),
       expiryDate := JSON_value (expiryDate m), extra := JSON_object (extra m),
       supplyChain := map_option (map JSON_checkpoint) (supplyChain m)\<rparr>"

definition JSON_entry :: "jsv \<times> medicine \<Rightarrow> jsv \<times> medicine" where
  "JSON_entry = (\<lambda>(k, m). (JSON_element k, JSON_medicine m))"

definition JSON_alert :: "alert \<Rightarrow> alert" where
  "JSON_alert a =
     a\<lparr>alert_batchNumber := JSON_value (alert_batchNumber a), reason := JSON_value (reason a)\<rparr>"

definition JSON_scan :: "scan \<Rightarrow> scan" where
  "JSON_scan h =
     h\<lparr>scan_batchNumber := JSON_value (scan_batchNumber h),
       scan_medicineName := JSON_value (scan_medicineName h)\<rparr>"

subsection \<open>Saving and loading\<close>

text \<open>
  \<^verbatim>\<open>save\<close> writes the object
  \<^verbatim>\<open>{ chain, medicines: Array.from(this.medicines.entries()), transactions, alerts, scanHistory }\<close>
  with \<^verbatim>\<open>JSON.stringify\<close>; the item then parses to what JSON keeps of it.
\<close>

definition save :: "engine \<Rightarrow> engine" where
  "save s =
     s\<lparr>localStorage := Saved
         \<lparr>doc_chain = Some (map JSON_block (chain s)),
          doc_medicines = Entries (map JSON_entry (medicines s)),
          doc_transactions = Some (map JSON_transaction (transactions s)),
          doc_alerts = Some (map JSON_alert (alerts s)),
          doc_scanHistory = Some (map JSON_scan (scanHistory s))\<rparr>\<rparr>"

definition createGenesisBlock :: "env \<Rightarrow> clock \<Rightarrow> engine \<Rightarrow> engine" where
  "createGenesisBlock E c s =
     (let genesisBlock = Block 0 (toISOString c)
            [(''type'', Str ''genesis''), (''message'', Str ''MediChain Genesis Block'')] ''0''
      in save (s\<lparr>chain := chain s
                   @ [genesisBlock\<lparr>hash := calculateHash E genesisBlock\<rparr>]\<rparr>))"

text \<open>\<^verbatim>\<open>x || []\<close> on a property of the parsed document.\<close>

definition orEmpty :: "'a list option \<Rightarrow> 'a list" where
  "orEmpty v = (case v of None \<Rightarrow> [] | Some xs \<Rightarrow> xs)"

text \<open>\<^verbatim>\<open>new Map(entries)\<close>: the entries are set one after the other.\<close>

definition newMap :: "('k \<times> 'v) list \<Rightarrow> ('k \<times> 'v) list" where
  "newMap entries = foldl (\<lambda>m (k, v). AList.update k v m) [] entries"

text \<open>
  \<^verbatim>\<open>initialize\<close>. Inside \<^verbatim>\<open>try\<close>, \<^verbatim>\<open>this.chain\<close> is assigned before \<^verbatim>\<open>new Map\<close> is
  evaluated: when \<^verbatim>\<open>new Map\<close> throws, the chain of the document is already in place,
  the other properties are not loaded, and the handler appends a genesis block to that
  chain. When \<^verbatim>\<open>JSON.parse\<close> throws, nothing has been assigned.
\<close>

definition initialize :: "env \<Rightarrow> clock \<Rightarrow> engine \<Rightarrow> engine" where
  "initialize E c s =
     (let s1 = (case localStorage s of
                  NoItem \<Rightarrow> createGenesisBlock E c s
                | Unparsable \<Rightarrow> createGenesisBlock E c s
                | Saved d \<Rightarrow>
                    (case doc_medicines d of
                       NotEntries \<Rightarrow> createGenesisBlock E c (s\<lparr>chain := orEmpty (doc_chain d)\<rparr>)
                     | NoEntries \<Rightarrow>
                         s\<lparr>chain := orEmpty (doc_chain d),
                           medicines := newMap [],
                           transactions := orEmpty (doc_transactions d),
                           alerts := orEmpty (doc_alerts d),
                           scanHistory := orEmpty (doc_scanHistory d)\<rparr>
                     | Entries es \<Rightarrow>
                         s\<lparr>chain := orEmpty (doc_chain d),
                           medicines := newMap es,
                           transactions := orEmpty (doc_transactions d),
                           alerts := orEmpty (doc_alerts d),
                           scanHistory := orEmpty (doc_scanHistory d)\<rparr>))
      in if length (chain s1) = 0 then createGenesisBlock E c s1 else s1)"

subsection \<open>Appending a block\<close>

definition getLatestBlock :: "engine \<Rightarrow> block option" where
  "getLatestBlock s = (if chain s = [] then None else Some (last (chain s)))"

text \<open>
  On an empty chain \<^verbatim>\<open>getLatestBlock\<close> returns \<^verbatim>\<open>undefined\<close> and reading its \<^verbatim>\<open>hash\<close>
  throws.
\<close>

definition addBlock :: "env \<Rightarrow> clock \<Rightarrow> obj \<Rightarrow> engine \<Rightarrow> block outcome" where
  "addBlock E c d s =
     (case getLatestBlock s of
        None \<Rightarrow> Some (Inl (TypeError ''latestBlock is undefined''), s)
      | Some latestBlock \<Rightarrow>
          (case mineBlock E (difficulty s)
                  (Block (length (chain s)) (toISOString c) d (hash latestBlock)) of
             None \<Rightarrow> None
           | Some newBlock \<Rightarrow> Some (Inr newBlock, save (s\<lparr>chain := chain s @ [newBlock]\<rparr>))))"

subsection \<open>Medicine registration\<close>

text \<open>\<^verbatim>\<open>a || b\<close>.\<close>

definition orElse :: "jsv \<Rightarrow> jsv \<Rightarrow> jsv" where
  "orElse a b = (if truthy a then a else b)"

text \<open>
  Clock readings: 0 \<^verbatim>\<open>registeredAt\<close>, 1 the checkpoint, 2 the transaction, 3 the block.
  The result is the triple \<^verbatim>\<open>{ medicine, transaction, block }\<close>.
\<close>

definition registerMedicine ::
  "env \<Rightarrow> (nat \<Rightarrow> clock) \<Rightarrow> medicineData \<Rightarrow> engine
     \<Rightarrow> (medicine \<times> transaction \<times> block) outcome" where
  "registerMedicine E clk md s =
     (if map_of (medicines s) (batchNumber md) \<noteq> None
      then Some (Inl (Error (''Batch '' @ tpl (batchNumber md)
                               @ '' already registered on blockchain'')), s)
      else
        let manufactured =
              \<lparr>stage = Str ''Manufactured'',
               actor = orElse (manufacturerName md) (manufacturerId md),
               location = Str ''Manufacturing Plant'',
               cp_timestamp = toISOString (clk 1), txHash = []\<rparr>;
            medicine =
              \<lparr>batchNumber = batchNumber md, medicineName = medicineName md,
               manufacturerId = manufacturerId md, manufacturerName = manufacturerName md,
               expiryDate = expiryDate md, extra = extra md,
               registeredAt = toISOString (clk 0), status = ''active'', scanCount = 0,
               supplyChain = Some [manufactured],
               verifications = [], blockHash = None, blockNumber = None\<rparr>;
            tx = generateHash E
                   (Transaction (clk 2) ''registration''
                      (property ''batchNumber'' (batchNumber md)
                       @ property ''medicineName'' (medicineName md)
                       @ property ''manufacturerId'' (manufacturerId md))
                      (manufacturerId md))
        in await
             (addBlock E (clk 3)
                ([(''type'', Str ''medicine_registration'')]
                 @ property ''batchNumber'' (batchNumber md)
                 @ property ''medicineName'' (medicineName md)
                 @ property ''manufacturerId'' (manufacturerId md)
                 @ [(''txHash'', Str (tx_hash tx))]) s)
             (\<lambda>block s1.
                let tx' = tx\<lparr>tx_blockNumber := Some (index block), tx_status := ''confirmed''\<rparr>;
                    medicine' = medicine
                      \<lparr>supplyChain := Some [manufactured\<lparr>txHash := tx_hash tx'\<rparr>],
                       blockHash := Some (hash block), blockNumber := Some (index block)\<rparr>
                in Some (Inr (medicine', tx', block),
                         save (s1\<lparr>medicines := AList.update (batchNumber md) medicine' (medicines s1),
                                  transactions := transactions s1 @ [tx']\<rparr>))))"

subsection \<open>Alerts\<close>

text \<open>Clock readings: 0 the alert, 1 the transaction, 2 the block.\<close>

definition createAlert :: "env \<Rightarrow> (nat \<Rightarrow> clock) \<Rightarrow> jsv \<Rightarrow> jsv \<Rightarrow> engine \<Rightarrow> alert outcome" where
  "createAlert E clk batch why s =
     (let alert = \<lparr>alert_id = ''alert_'' @ toString 10 (Date_now (clk 0)),
                   alert_batchNumber = batch, reason = why,
                   alert_timestamp = toISOString (clk 0), severity = ''high'',
                   alert_status = ''active''\<rparr>;
          s0 = s\<lparr>alerts := alerts s @ [alert]\<rparr>;
          tx = generateHash E
                 (Transaction (clk 1) ''alert''
                    (property ''batchNumber'' batch @ property ''reason'' why) (Str ''system''))
      in await
           (addBlock E (clk 2)
              ([(''type'', Str ''counterfeit_alert'')] @ property ''batchNumber'' batch
               @ property ''reason'' why @ [(''txHash'', Str (tx_hash tx))]) s0)
           (\<lambda>block s1.
              let tx' = tx\<lparr>tx_blockNumber := Some (index block), tx_status := ''confirmed''\<rparr>
              in Some (Inr alert, save (s1\<lparr>transactions := transactions s1 @ [tx']\<rparr>))))"

subsection \<open>Medicine verification\<close>

record check =
  name :: string
  passed :: bool
  detail :: string

text \<open>The object \<^verbatim>\<open>{ isAuthentic, checks, medicine, batchNumber }\<close> that is returned.\<close>

record verdict =
  isAuthentic :: bool
  checks :: "check list"
  v_medicine :: "medicine option"
  v_batchNumber :: jsv

text \<open>
  Checks 2 to 6 each push one entry on \<^verbatim>\<open>checks\<close> and may clear \<^verbatim>\<open>isAuthentic\<close>;
  the pair \<open>(checks, isAuthentic)\<close> is threaded through them in the order of the source.
\<close>

definition check2 :: "jsv \<Rightarrow> check list \<times> bool \<Rightarrow> check list \<times> bool" where
  "check2 batch = (\<lambda>(cs, auth).
     (cs @ [\<lparr>name = ''Batch Number Matches'', passed = True,
             detail = ''Batch: '' @ tpl batch\<rparr>], auth))"

text \<open>
  \<^verbatim>\<open>new Date(medicine.expiryDate) > now\<close>; \<open>Date_value\<close> is \<open>None\<close> for an invalid date,
  which compares as false.
\<close>

definition notExpired :: "env \<Rightarrow> clock \<Rightarrow> medicine \<Rightarrow> bool" where
  "notExpired E now m =
     (case Date_value E (expiryDate m) of None \<Rightarrow> False | Some expDate \<Rightarrow> expDate > int (Date_now now))"

definition check3 :: "env \<Rightarrow> clock \<Rightarrow> medicine \<Rightarrow> check list \<times> bool \<Rightarrow> check list \<times> bool" where
  "check3 E now m = (\<lambda>(cs, auth).
     if notExpired E now m
     then (cs @ [\<lparr>name = ''Medicine Not Expired'', passed = True,
                  detail = ''Expires: '' @ tpl (expiryDate m)\<rparr>], auth)
     else (cs @ [\<lparr>name = ''Medicine Not Expired'', passed = False,
                  detail = ''EXPIRED on '' @ tpl (expiryDate m)\<rparr>], False))"

definition check4 :: "medicine \<Rightarrow> check list \<times> bool \<Rightarrow> check list \<times> bool" where
  "check4 m = (\<lambda>(cs, auth).
     if status m \<noteq> ''sold''
     then (cs @ [\<lparr>name = ''Not Previously Sold'', passed = True,
                  detail = ''Status: '' @ status m\<rparr>], auth)
     else (cs @ [\<lparr>name = ''Not Previously Sold'', passed = False,
                  detail = ''Medicine marked as SOLD''\<rparr>], False))"

definition check5 :: "medicine \<Rightarrow> check list \<times> bool \<Rightarrow> check list \<times> bool" where
  "check5 m = (\<lambda>(cs, auth).
     case supplyChain m of
       Some cps \<Rightarrow>
         if length cps > 0
         then (cs @ [\<lparr>name = ''Supply Chain Valid'', passed = True,
                      detail = toString 10 (length cps) @ '' checkpoint(s)''\<rparr>], auth)
         else (cs @ [\<lparr>name = ''Supply Chain Valid'', passed = False,
                      detail = ''No supply chain data''\<rparr>], auth)
     | None \<Rightarrow>
         (cs @ [\<lparr>name = ''Supply Chain Valid'', passed = False,
                 detail = ''No supply chain data''\<rparr>], auth))"

definition check6 :: "engine \<Rightarrow> medicine \<Rightarrow> check list \<times> bool \<Rightarrow> check list \<times> bool" where
  "check6 s m = (\<lambda>(cs, auth).
     case blockNumber m of
       Some blockIndex \<Rightarrow>
         if blockIndex < length (chain s)
         then (cs @ [\<lparr>name = ''Blockchain Integrity'', passed = True,
                      detail = ''Block #'' @ toString 10 blockIndex @ '' verified''\<rparr>], auth)
         else (cs @ [\<lparr>name = ''Blockchain Integrity'', passed = False,
                      detail = ''Block reference invalid''\<rparr>], False)
     | None \<Rightarrow>
         (cs @ [\<lparr>name = ''Blockchain Integrity'', passed = False,
                 detail = ''Block reference invalid''\<rparr>], False))"

text \<open>
  The branch of \<^verbatim>\<open>verifyMedicine\<close> for a batch that is not in the map.
  Clock readings: 0 to 2 \<^verbatim>\<open>createAlert\<close>, 3 the transaction, 4 the block, 5 the scan.
\<close>

definition verifyMissing :: "env \<Rightarrow> (nat \<Rightarrow> clock) \<Rightarrow> jsv \<Rightarrow> engine \<Rightarrow> verdict outcome" where
  "verifyMissing E clk batch s =
     (let checks = [\<lparr>name = ''Blockchain Record Exists'', passed = False,
                     detail = ''NOT found on blockchain''\<rparr>]
      in await (createAlert E clk batch (Str ''Medicine not found on blockchain'') s)
           (\<lambda>_ s1.
              let tx = generateHash E
                         (Transaction (clk 3) ''verification''
                            (property ''batchNumber'' batch
                             @ [(''result'', Str ''COUNTERFEIT''),
                                (''reason'', Str ''Not found on blockchain'')]) (Str ''verifier''))
              in await
                   (addBlock E (clk 4)
                      ([(''type'', Str ''verification_failed'')] @ property ''batchNumber'' batch
                       @ [(''txHash'', Str (tx_hash tx))]) s1)
                   (\<lambda>block s2.
                      let tx' = tx\<lparr>tx_blockNumber := Some (index block),
                                   tx_status := ''confirmed''\<rparr>
                      in Some (Inr \<lparr>isAuthentic = False, checks = checks, v_medicine = None,
                                    v_batchNumber = batch\<rparr>,
                               save (s2\<lparr>transactions := transactions s2 @ [tx'],
                                        scanHistory := scanHistory s2 @
                                          [\<lparr>scan_batchNumber = batch, scan_medicineName = Undefined,
                                            scan_result = ''counterfeit'',
                                            scan_timestamp = toISOString (clk 5),
                                            scan_reason = Some ''Not found on blockchain''\<rparr>]\<rparr>)))))"

text \<open>
  The rest of \<^verbatim>\<open>verifyMedicine\<close> for a batch that is in the map, after the six checks.
  Clock readings: 1 the verification entry, 2 the transaction, 3 the block, 4 the scan,
  5 to 7 \<^verbatim>\<open>createAlert\<close>.
\<close>

definition verifyRecord ::
  "env \<Rightarrow> (nat \<Rightarrow> clock) \<Rightarrow> jsv \<Rightarrow> medicine \<Rightarrow> check list \<times> bool \<Rightarrow> engine \<Rightarrow> verdict outcome" where
  "verifyRecord E clk batch m = (\<lambda>(cs, auth) s.
     let medicine = m\<lparr>scanCount := scanCount m + 1,
                      verifications := verifications m @
                        [\<lparr>v_timestamp = toISOString (clk 1),
                          v_result = (if auth then ''authentic'' else ''suspicious'')\<rparr>]\<rparr>;
         s0 = s\<lparr>medicines := AList.update batch medicine (medicines s)\<rparr>;
         tx = generateHash E
                (Transaction (clk 2) ''verification''
                   (property ''batchNumber'' batch
                    @ property ''medicineName'' (medicineName medicine)
                    @ [(''result'', Str (if auth then ''AUTHENTIC'' else ''SUSPICIOUS''))])
                   (Str ''verifier''))
     in await
          (addBlock E (clk 3)
             ([(''type'', Str (if auth then ''verification_passed'' else ''verification_failed''))]
              @ property ''batchNumber'' batch @ [(''txHash'', Str (tx_hash tx))]) s0)
          (\<lambda>block s1.
             let tx' = tx\<lparr>tx_blockNumber := Some (index block), tx_status := ''confirmed''\<rparr>;
                 s2 = s1\<lparr>transactions := transactions s1 @ [tx'],
                         scanHistory := scanHistory s1 @
                           [\<lparr>scan_batchNumber = batch,
                             scan_medicineName = medicineName medicine,
                             scan_result = (if auth then ''authentic'' else ''counterfeit''),
                             scan_timestamp = toISOString (clk 4), scan_reason = None\<rparr>]\<rparr>;
                 result = \<lparr>isAuthentic = auth, checks = cs, v_medicine = Some medicine,
                           v_batchNumber = batch\<rparr>
             in if \<not> auth
                then await (createAlert E (\<lambda>k. clk (k + 5)) batch
                              (Str ''Verification checks failed'') s2)
                       (\<lambda>_ s3. Some (Inr result, save s3))
                else Some (Inr result, save s2)))"

text \<open>Clock reading 0 is \<^verbatim>\<open>now\<close>, the time the expiry date is compared with.\<close>

definition verifyMedicine :: "env \<Rightarrow> (nat \<Rightarrow> clock) \<Rightarrow> jsv \<Rightarrow> engine \<Rightarrow> verdict outcome" where
  "verifyMedicine E clk batch s =
     (case map_of (medicines s) batch of
        None \<Rightarrow> verifyMissing E clk batch s
      | Some medicine \<Rightarrow>
          verifyRecord E clk batch medicine
            (check6 s medicine (check5 medicine (check4 medicine (check3 E (clk 0) medicine
               (check2 batch
                  ([\<lparr>name = ''Blockchain Record Exists'', passed = True,
                     detail = ''Medicine found on blockchain''\<rparr>], True))))))
            s)"

subsection \<open>Supply chain transfer\<close>

text \<open>Clock readings: 0 the transaction, 1 the block, 2 the checkpoint.\<close>

definition transferMedicine ::
  "env \<Rightarrow> (nat \<Rightarrow> clock) \<Rightarrow> jsv \<Rightarrow> jsv \<Rightarrow> jsv \<Rightarrow> jsv \<Rightarrow> engine
     \<Rightarrow> (medicine \<times> transaction) outcome" where
  "transferMedicine E clk batch stg act loc s =
     (case map_of (medicines s) batch of
        None \<Rightarrow> Some (Inl (Error ''Medicine not found''), s)
      | Some medicine \<Rightarrow>
          let tx = generateHash E
                     (Transaction (clk 0) ''transfer''
                        (property ''batchNumber'' batch @ property ''stage'' stg
                         @ property ''actor'' act @ property ''location'' loc) act)
          in await
               (addBlock E (clk 1)
                  ([(''type'', Str ''supply_chain_transfer'')] @ property ''batchNumber'' batch
                   @ property ''stage'' stg @ property ''actor'' act
                   @ [(''txHash'', Str (tx_hash tx))]) s)
               (\<lambda>block s1.
                  let tx' = tx\<lparr>tx_blockNumber := Some (index block), tx_status := ''confirmed''\<rparr>;
                      s2 = s1\<lparr>transactions := transactions s1 @ [tx']\<rparr>
                  in case supplyChain medicine of
                       None \<Rightarrow> Some (Inl (TypeError ''medicine.supplyChain is undefined''), s2)
                     | Some cps \<Rightarrow>
                         let medicine' = medicine
                               \<lparr>supplyChain := Some (cps @
                                  [\<lparr>stage = stg, actor = act, location = loc,
                                    cp_timestamp = toISOString (clk 2), txHash = tx_hash tx'\<rparr>])\<rparr>
                         in Some (Inr (medicine', tx'),
                                  save (s2\<lparr>medicines := AList.update batch medicine' (medicines s2)\<rparr>))))"

subsection \<open>Chain validation\<close>

function isChainValid_from :: "env \<Rightarrow> block list \<Rightarrow> nat \<Rightarrow> bool" where
  "isChainValid_from E c i =
     (if i < length c
      then
        let current = c ! i;
            previous = c ! (i - 1);
            block = (Block (index current) (timestamp current) (data current)
                       (previousHash current))\<lparr>nonce := nonce current\<rparr>;
            recalculated = calculateHash E block
        in if hash current \<noteq> recalculated then False
           else if previousHash current \<noteq> hash previous then False
           else isChainValid_from E c (i + 1)
      else True)"
  by pat_completeness auto
termination
  by (relation "measure (\<lambda>(E, c, i). length c - i)") auto

declare isChainValid_from.simps [simp del]

definition isChainValid :: "env \<Rightarrow> engine \<Rightarrow> bool" where
  "isChainValid E s = isChainValid_from E (chain s) 1"

subsection \<open>Queries\<close>

text \<open>
  \<^verbatim>\<open>{ batchNumber: batch, ...data }\<close>: the \<^verbatim>\<open>batchNumber\<close> of the stored record, when it
  has one, is written over the key. (A record that \<^verbatim>\<open>registerMedicine\<close> has stored
  with a \<^verbatim>\<open>batchNumber\<close> that is \<^verbatim>\<open>undefined\<close> is stored under the key \<^verbatim>\<open>undefined\<close>, so
  that both readings agree on it.)
\<close>

definition getAllMedicines :: "engine \<Rightarrow> medicine list" where
  "getAllMedicines s =
     map (\<lambda>(batch, d). d\<lparr>batchNumber := (if batchNumber d = Undefined then batch
                                           else batchNumber d)\<rparr>) (medicines s)"

text \<open>\<^verbatim>\<open>this.medicines.get(batchNumber) || null\<close>; \<open>None\<close> is \<^verbatim>\<open>null\<close>.\<close>

definition getMedicine :: "engine \<Rightarrow> jsv \<Rightarrow> medicine option" where
  "getMedicine s batch = map_of (medicines s) batch"

text \<open>\<^verbatim>\<open>String.prototype.includes\<close>.\<close>

fun str_includes :: "string \<Rightarrow> string \<Rightarrow> bool" where
  "str_includes [] q = (q = [])"
| "str_includes (c # cs) q = (take (length q) (c # cs) = q \<or> str_includes cs q)"

text \<open>
  \<^verbatim>\<open>v.toLowerCase()\<close>: on \<^verbatim>\<open>undefined\<close> and \<^verbatim>\<open>null\<close> reading the property throws, and
  a boolean or a number has no such method, so the call throws; both are type errors.
\<close>

fun lower :: "env \<Rightarrow> jsv \<Rightarrow> error + string" where
  "lower E (Str x) = Inr (toLowerCase E x)"
| "lower E Undefined = Inl (TypeError ''Cannot read properties of undefined (reading toLowerCase)'')"
| "lower E Null = Inl (TypeError ''Cannot read properties of null (reading toLowerCase)'')"
| "lower E (Bool b) = Inl (TypeError ''toLowerCase is not a function'')"
| "lower E (Num n) = Inl (TypeError ''toLowerCase is not a function'')"
| "lower E NaN = Inl (TypeError ''toLowerCase is not a function'')"

text \<open>
  The callback of the filter in \<^verbatim>\<open>search\<close>, for the query \<open>q\<close> in lower case.
  \<^verbatim>\<open>||\<close> stops at the first operand that holds, and \<^verbatim>\<open>&&\<close> reads
  \<^verbatim>\<open>m.manufacturerName.toLowerCase\<close> only when \<^verbatim>\<open>m.manufacturerName\<close> counts as true.
\<close>

definition matches :: "env \<Rightarrow> string \<Rightarrow> medicine \<Rightarrow> error + bool" where
  "matches E q m =
     (case lower E (batchNumber m) of
        Inl e \<Rightarrow> Inl e
      | Inr b \<Rightarrow>
          if str_includes b q then Inr True
          else (case lower E (medicineName m) of
                  Inl e \<Rightarrow> Inl e
                | Inr n \<Rightarrow>
                    if str_includes n q then Inr True
                    else if \<not> truthy (manufacturerName m) then Inr False
                    else (case lower E (manufacturerName m) of
                            Inl e \<Rightarrow> Inl e
                          | Inr f \<Rightarrow> Inr (str_includes f q))))"

text \<open>\<^verbatim>\<open>Array.prototype.filter\<close> with a callback that may throw.\<close>

fun filter_throwing :: "('a \<Rightarrow> error + bool) \<Rightarrow> 'a list \<Rightarrow> error + 'a list" where
  "filter_throwing p [] = Inr []"
| "filter_throwing p (x # xs) =
     (case p x of
        Inl e \<Rightarrow> Inl e
      | Inr keep \<Rightarrow>
          (case filter_throwing p xs of
             Inl e \<Rightarrow> Inl e
           | Inr ys \<Rightarrow> Inr (if keep then x # ys else ys)))"

definition search :: "env \<Rightarrow> jsv \<Rightarrow> engine \<Rightarrow> error + medicine list" where
  "search E query s =
     (case lower E query of
        Inl e \<Rightarrow> Inl e
      | Inr q \<Rightarrow> filter_throwing (matches E q) (getAllMedicines s))"

subsection \<open>Sequences of calls\<close>

datatype call =
    RegisterMedicine "nat \<Rightarrow> clock" medicineData
  | VerifyMedicine "nat \<Rightarrow> clock" jsv
  | TransferMedicine "nat \<Rightarrow> clock" jsv jsv jsv jsv
  | CreateAlert "nat \<Rightarrow> clock" jsv jsv

text \<open>
  One call made by a caller that awaits it and catches whatever it throws: the engine
  goes on in the state the call left.
\<close>

fun perform :: "env \<Rightarrow> call \<Rightarrow> engine \<Rightarrow> engine option" where
  "perform E (RegisterMedicine clk md) s = map_option snd (registerMedicine E clk md s)"
| "perform E (VerifyMedicine clk batch) s = map_option snd (verifyMedicine E clk batch s)"
| "perform E (TransferMedicine clk batch stg act loc) s =
     map_option snd (transferMedicine E clk batch stg act loc s)"
| "perform E (CreateAlert clk batch why) s = map_option snd (createAlert E clk batch why s)"

text \<open>Calls made one after the other, each awaited before the next is made.\<close>

fun run :: "env \<Rightarrow> call list \<Rightarrow> engine \<Rightarrow> engine option" where
  "run E [] s = Some s"
| "run E (c # cs) s = (case perform E c s of None \<Rightarrow> None | Some s' \<Rightarrow> run E cs s')"

subsection \<open>Calls that overlap\<close>

text \<open>
  An \<^verbatim>\<open>async\<close> method runs from its call up to the first \<^verbatim>\<open>await\<close> of an operation
  that has not settled, hands control back to its caller, and goes on in a later turn
  of the event loop. A caller that does not await the promise it got can make the next
  call of the engine in between; \<^verbatim>\<open>app.js\<close> does so for every scanned code, where
  \<^verbatim>\<open>scanCallback\<close> starts \<^verbatim>\<open>handleQRData\<close> and \<^verbatim>\<open>addToScanHistory\<close>, each of which calls
  \<^verbatim>\<open>verifyMedicine\<close>. The engine has no queue and no lock.

  \<^verbatim>\<open>createAlert\<close> waits for a digest of the Web Crypto API at two places:
  in \<^verbatim>\<open>tx.generateHash()\<close> and, inside \<^verbatim>\<open>addBlock\<close>, in \<^verbatim>\<open>newBlock.mineBlock\<close>. The
  digests read and write the transaction and the new block only, so on the engine the
  method is three turns:
  \<^item> from the call to \<^verbatim>\<open>await tx.generateHash()\<close>: the alert is pushed and the
    transaction is made (clock readings 0 and 1);
  \<^item> from there to \<^verbatim>\<open>await newBlock.mineBlock(this.difficulty)\<close>: \<^verbatim>\<open>addBlock\<close> reads the
    latest block and the length of the chain and makes the new block (clock reading 2);
  \<^item> from there to the end: the mined block is pushed, and the transaction after it.

  \<open>Called\<close>, \<open>Hashing\<close>, \<open>Mining\<close> and \<open>Settled\<close> are a call of \<^verbatim>\<open>createAlert\<close> before its
  first, second and third turn and after its last, with the local variables that the
  next turn uses. A call whose proof-of-work search never ends has no third turn
  (\<open>None\<close>).
\<close>

datatype alert_call =
    Called "nat \<Rightarrow> clock" jsv jsv
  | Hashing "nat \<Rightarrow> clock" jsv jsv alert transaction
  | Mining alert transaction block nat
  | Settled "error + alert"

fun turn :: "env \<Rightarrow> alert_call \<Rightarrow> engine \<Rightarrow> (alert_call \<times> engine) option" where
  "turn E (Called clk batch why) s =
     (let alert = \<lparr>alert_id = ''alert_'' @ toString 10 (Date_now (clk 0)),
                   alert_batchNumber = batch, reason = why,
                   alert_timestamp = toISOString (clk 0), severity = ''high'',
                   alert_status = ''active''\<rparr>;
          tx = Transaction (clk 1) ''alert''
                 (property ''batchNumber'' batch @ property ''reason'' why) (Str ''system'')
      in Some (Hashing clk batch why alert tx, s\<lparr>alerts := alerts s @ [alert]\<rparr>))"
| "turn E (Hashing clk batch why alert tx0) s =
     (let tx = generateHash E tx0
      in case getLatestBlock s of
           None \<Rightarrow> Some (Settled (Inl (TypeError ''latestBlock is undefined'')), s)
         | Some latestBlock \<Rightarrow>
             Some (Mining alert tx
                     (Block (length (chain s)) (toISOString (clk 2))
                        ([(''type'', Str ''counterfeit_alert'')] @ property ''batchNumber'' batch
                         @ property ''reason'' why @ [(''txHash'', Str (tx_hash tx))])
                        (hash latestBlock))
                     (difficulty s), s))"
| "turn E (Mining alert tx newBlock d) s =
     (case mineBlock E d newBlock of
        None \<Rightarrow> None
      | Some block \<Rightarrow>
          let s1 = save (s\<lparr>chain := chain s @ [block]\<rparr>);
              tx' = tx\<lparr>tx_blockNumber := Some (index block), tx_status := ''confirmed''\<rparr>
          in Some (Settled (Inr alert), save (s1\<lparr>transactions := transactions s1 @ [tx']\<rparr>)))"
| "turn E (Settled r) s = Some (Settled r, s)"

text \<open>
  Calls in progress and the order in which they take their turns: \<open>i\<close> in the list is
  the next turn of call \<open>i\<close>. The first turn of a call is taken when the call is made;
  the later ones when the digest it waits for has settled.
\<close>

fun turns :: "env \<Rightarrow> nat list \<Rightarrow> alert_call list \<Rightarrow> engine \<Rightarrow> (alert_call list \<times> engine) option" where
  "turns E [] cs s = Some (cs, s)"
| "turns E (i # order) cs s =
     (if i < length cs
      then (case turn E (cs ! i) s of
              None \<Rightarrow> None
            | Some (c, s') \<Rightarrow> turns E order (cs[i := c]) s')
      else None)"

section \<open>The contract (MediChain.sol)\<close>

text \<open>
  A call of the contract either reverts, and then the storage is as before, or returns
  the new storage. \<^verbatim>\<open>uint256\<close> values are \<open>nat\<close>; an increment past \<open>2^256 - 1\<close>
  reverts, as checked arithmetic does since Solidity 0.8. Names that the engine already
  uses carry a prime.
\<close>

datatype MedicineStatus = Active | Sold | Expired | Flagged

datatype SupplyStage = Manufactured | QualityChecked | Shipped | InTransit | Delivered | Dispensed

type_synonym address = nat

record Medicine =
  id' :: nat
  medicineName' :: string
  batchNumber' :: string
  manufacturerId' :: string
  manufacturerName' :: string
  mfgDate :: string
  expiryDate' :: string
  medicineType :: string
  quantity :: nat
  composition :: string
  shipmentDest :: string
  price :: nat
  status' :: MedicineStatus
  registeredBy :: address
  registeredAt' :: nat
  scanCount' :: nat
  exists :: bool

record SupplyChainEntry =
  stage' :: SupplyStage
  actor' :: string
  location' :: string
  timestamp' :: nat
  updatedBy :: address

record VerificationRecord =
  verifier :: address
  vr_timestamp :: nat
  vr_isAuthentic :: bool
  details :: string

record CounterfeitAlert =
  ca_id :: nat
  ca_batchNumber :: string
  ca_reason :: string
  reportedBy :: address
  ca_timestamp :: nat
  resolved :: bool

datatype event =
    MedicineRegistered string string string address nat
  | MedicineVerified string bool address nat
  | CounterfeitAlertRaised nat string string address nat

record MediChain =
  owner :: address
  medicineCount :: nat
  verificationCount :: nat
  alertCount :: nat
  medicines' :: "string \<Rightarrow> Medicine"
  supplyChain' :: "string \<Rightarrow> SupplyChainEntry list"
  verifications' :: "string \<Rightarrow> VerificationRecord list"
  alerts' :: "nat \<Rightarrow> CounterfeitAlert"
  authorizedManufacturers :: "address \<Rightarrow> bool"
  authorizedDistributors :: "address \<Rightarrow> bool"
  authorizedShops :: "address \<Rightarrow> bool"
  allBatchNumbers :: "string list"
  emitted :: "event list"

text \<open>\<^verbatim>\<open>msg.sender\<close> and \<^verbatim>\<open>block.timestamp\<close> of the transaction that carries the call.\<close>

record msg =
  sender :: address
  block_timestamp :: nat

datatype revert = Revert string | Panic nat

definition increment :: "nat \<Rightarrow> revert + nat" where
  "increment n = (if n + 1 < 2 ^ 256 then Inr (n + 1) else Inl (Panic 17))"

definition MediChain_constructor :: "msg \<Rightarrow> MediChain" where
  "MediChain_constructor m =
     \<lparr>owner = sender m, medicineCount = 0, verificationCount = 0, alertCount = 0,
      medicines' = (\<lambda>_.
        \<lparr>id' = 0, medicineName' = [], batchNumber' = [], manufacturerId' = [],
         manufacturerName' = [], mfgDate = [], expiryDate' = [], medicineType = [],
         quantity = 0, composition = [], shipmentDest = [], price = 0, status' = Active,
         registeredBy = 0, registeredAt' = 0, scanCount' = 0, exists = False\<rparr>),
      supplyChain' = (\<lambda>_. []), verifications' = (\<lambda>_. []),
      alerts' = (\<lambda>_. \<lparr>ca_id = 0, ca_batchNumber = [], ca_reason = [], reportedBy = 0,
                        ca_timestamp = 0, resolved = False\<rparr>),
      authorizedManufacturers = (\<lambda>a. a = sender m),
      authorizedDistributors = (\<lambda>a. a = sender m),
      authorizedShops = (\<lambda>a. a = sender m),
      allBatchNumbers = [], emitted = []\<rparr>"

definition MediChain_registerMedicine ::
  "msg \<Rightarrow> string \<Rightarrow> string \<Rightarrow> string \<Rightarrow> string \<Rightarrow> string \<Rightarrow> string \<Rightarrow> MediChain
     \<Rightarrow> revert + MediChain" where
  "MediChain_registerMedicine m medName batch mfrId mfrName mfg expiry c =
     (if \<not> (authorizedManufacturers c (sender m) \<or> sender m = owner c)
      then Inl (Revert ''Not an authorized manufacturer'')
      else if exists (medicines' c batch) then Inl (Revert ''Batch number already registered'')
      else if \<not> length batch > 0 then Inl (Revert ''Batch number cannot be empty'')
      else if \<not> length medName > 0 then Inl (Revert ''Medicine name cannot be empty'')
      else case increment (medicineCount c) of
        Inl e \<Rightarrow> Inl e
      | Inr n \<Rightarrow>
          Inr (c\<lparr>medicineCount := n,
                 medicines' := (medicines' c)(batch := (medicines' c batch)
                   \<lparr>id' := n, medicineName' := medName, batchNumber' := batch,
                    manufacturerId' := mfrId, manufacturerName' := mfrName, mfgDate := mfg,
                    expiryDate' := expiry, status' := Active, registeredBy := sender m,
                    registeredAt' := block_timestamp m, scanCount' := 0, exists := True\<rparr>),
                 allBatchNumbers := allBatchNumbers c @ [batch],
                 supplyChain' := (supplyChain' c)(batch := supplyChain' c batch @
                   [\<lparr>stage' = Manufactured, actor' = mfrName,
                     location' = ''Manufacturing Plant'', timestamp' = block_timestamp m,
                     updatedBy = sender m\<rparr>]),
                 emitted := emitted c @
                   [MedicineRegistered batch medName mfrId (sender m) (block_timestamp m)]\<rparr>))"

text \<open>The result is the pair \<^verbatim>\<open>(isAuthentic, details)\<close> and the new storage.\<close>

definition MediChain_verifyMedicine ::
  "msg \<Rightarrow> string \<Rightarrow> MediChain \<Rightarrow> revert + ((bool \<times> string) \<times> MediChain)" where
  "MediChain_verifyMedicine m batch c =
     (case increment (verificationCount c) of
        Inl e \<Rightarrow> Inl e
      | Inr vc \<Rightarrow>
          let c1 = c\<lparr>verificationCount := vc\<rparr>;
              record_of = (\<lambda>auth text. \<lparr>verifier = sender m, vr_timestamp = block_timestamp m,
                                        vr_isAuthentic = auth, details = text\<rparr>)
          in if \<not> exists (medicines' c1 batch)
             then (case increment (alertCount c1) of
                Inl e \<Rightarrow> Inl e
              | Inr ac \<Rightarrow>
                  Inr ((False, ''WARNING: Medicine NOT found on blockchain. Possible counterfeit!''),
                       c1\<lparr>alertCount := ac,
                          alerts' := (alerts' c1)(ac :=
                            \<lparr>ca_id = ac, ca_batchNumber = batch,
                             ca_reason = ''Medicine not found on blockchain'',
                             reportedBy = sender m, ca_timestamp = block_timestamp m,
                             resolved = False\<rparr>),
                          verifications' := (verifications' c1)(batch := verifications' c1 batch @
                            [record_of False ''NOT FOUND on blockchain'']),
                          emitted := emitted c1 @
                            [CounterfeitAlertRaised ac batch ''Not found on blockchain'' (sender m)
                               (block_timestamp m),
                             MedicineVerified batch False (sender m) (block_timestamp m)]\<rparr>))
             else (case increment (scanCount' (medicines' c1 batch)) of
                Inl e \<Rightarrow> Inl e
              | Inr sc \<Rightarrow>
                  let c2 = c1\<lparr>medicines' := (medicines' c1)(batch :=
                                 (medicines' c1 batch)\<lparr>scanCount' := sc\<rparr>)\<rparr>;
                      med = medicines' c2 batch
                  in if status' med = Flagged
                     then Inr ((False, ''WARNING: Medicine has been FLAGGED as suspicious!''),
                            c2\<lparr>verifications' := (verifications' c2)(batch :=
                                  verifications' c2 batch @
                                  [record_of False ''Medicine FLAGGED as suspicious'']),
                               emitted := emitted c2 @
                                 [MedicineVerified batch False (sender m) (block_timestamp m)]\<rparr>)
                     else if status' med = Sold
                     then Inr ((False, ''WARNING: Medicine already marked as SOLD. Possible duplicate!''),
                            c2\<lparr>verifications' := (verifications' c2)(batch :=
                                  verifications' c2 batch @
                                  [record_of False ''Medicine already marked as SOLD'']),
                               emitted := emitted c2 @
                                 [MedicineVerified batch False (sender m) (block_timestamp m)]\<rparr>)
                     else Inr ((True, ''Medicine is AUTHENTIC. All blockchain checks passed.''),
                            c2\<lparr>verifications' := (verifications' c2)(batch :=
                                  verifications' c2 batch @
                                  [record_of True ''All verification checks passed'']),
                               emitted := emitted c2 @
                                 [MedicineVerified batch True (sender m) (block_timestamp m)]\<rparr>)))"

definition MediChain_getMedicine :: "MediChain \<Rightarrow> string \<Rightarrow> revert + Medicine" where
  "MediChain_getMedicine c batch =
     (if \<not> exists (medicines' c batch) then Inl (Revert ''Medicine not found'')
      else Inr (medicines' c batch))"

section \<open>Notions used in the statements\<close>

text \<open>
  \<open>meets E d b n\<close>: the digest of block \<open>b\<close> with nonce \<open>n\<close> starts with \<open>d\<close> zero
  characters. \<open>mined E b n\<close>: block \<open>b\<close> with nonce \<open>n\<close> and the digest for it.
\<close>

definition meets :: "env \<Rightarrow> nat \<Rightarrow> block \<Rightarrow> nat \<Rightarrow> bool" where
  "meets E d b n = (take d (calculateHash E (b\<lparr>nonce := n\<rparr>)) = replicate d (CHR ''0''))"

definition mined :: "env \<Rightarrow> block \<Rightarrow> nat \<Rightarrow> block" where
  "mined E b n = b\<lparr>nonce := n, hash := calculateHash E (b\<lparr>nonce := n\<rparr>)\<rparr>"

text \<open>
  Invariants of the engine: the chain is not empty and the keys of the medicine map are
  distinct (\<open>stored_ok\<close>); moreover the difficulty is positive and every block after
  the first carries its own digest and the hash of its predecessor (\<open>sound\<close>).
\<close>

definition linked :: "env \<Rightarrow> block list \<Rightarrow> bool" where
  "linked E c = (\<forall>i. 1 \<le> i \<and> i < length c \<longrightarrow>
     hash (c ! i) = calculateHash E (c ! i) \<and> previousHash (c ! i) = hash (c ! (i - 1)))"

definition stored_ok :: "engine \<Rightarrow> bool" where
  "stored_ok s = (chain s \<noteq> [] \<and> distinct (map fst (medicines s)))"

definition sound :: "env \<Rightarrow> engine \<Rightarrow> bool" where
  "sound E s = (stored_ok s \<and> 0 < difficulty s \<and> linked E (chain s))"

text \<open>What checks 5 and 6 of \<^verbatim>\<open>verifyMedicine\<close> test.\<close>

definition supplied :: "medicine \<Rightarrow> bool" where
  "supplied m = (case supplyChain m of None \<Rightarrow> False | Some cps \<Rightarrow> length cps > 0)"

definition anchored :: "engine \<Rightarrow> medicine \<Rightarrow> bool" where
  "anchored s m = (case blockNumber m of None \<Rightarrow> False | Some i \<Rightarrow> i < length (chain s))"

text \<open>
  A state that JSON represents as it is: no value is \<^verbatim>\<open>NaN\<close>, which is written as
  \<^verbatim>\<open>null\<close> (\<open>NaN_free\<close>), and no medicine is stored under the key \<^verbatim>\<open>undefined\<close>, which
  is written as \<^verbatim>\<open>null\<close> as well (\<open>keyed\<close>).
\<close>

definition NaN_free_object :: "obj \<Rightarrow> bool" where
  "NaN_free_object ps = (\<forall>p\<in>set ps. snd p \<noteq> NaN)"

definition NaN_free_transaction :: "transaction \<Rightarrow> bool" where
  "NaN_free_transaction t = (NaN_free_object (tx_data t) \<and> tx_from t \<noteq> NaN \<and> tx_to t \<noteq> NaN)"

definition NaN_free_checkpoint :: "checkpoint \<Rightarrow> bool" where
  "NaN_free_checkpoint p = (stage p \<noteq> NaN \<and> actor p \<noteq> NaN \<and> location p \<noteq> NaN)"

definition NaN_free_medicine :: "medicine \<Rightarrow> bool" where
  "NaN_free_medicine m =
     (batchNumber m \<noteq> NaN \<and> medicineName m \<noteq> NaN \<and> manufacturerId m \<noteq> NaN
      \<and> manufacturerName m \<noteq> NaN \<and> expiryDate m \<noteq> NaN \<and> NaN_free_object (extra m)
      \<and> (\<forall>p\<in>set (orEmpty (supplyChain m)). NaN_free_checkpoint p))"

definition NaN_free :: "engine \<Rightarrow> bool" where
  "NaN_free s =
     ((\<forall>b\<in>set (chain s). NaN_free_object (data b))
      \<and> (\<forall>e\<in>set (medicines s). fst e \<noteq> NaN \<and> NaN_free_medicine (snd e))
      \<and> (\<forall>t\<in>set (transactions s). NaN_free_transaction t)
      \<and> (\<forall>a\<in>set (alerts s). alert_batchNumber a \<noteq> NaN \<and> reason a \<noteq> NaN)
      \<and> (\<forall>h\<in>set (scanHistory s). scan_batchNumber h \<noteq> NaN \<and> scan_medicineName h \<noteq> NaN))"

definition keyed :: "engine \<Rightarrow> bool" where
  "keyed s = (\<forall>e\<in>set (medicines s). fst e \<noteq> Undefined)"

section \<open>A sample environment\<close>

text \<open>
  Concrete built-ins, clock readings and inputs, on which the operations are evaluated.
  The sample digest is two bytes long and depends on the last character of the message
  only, so that a block is mined at nonce 1; \<open>slow_env\<close> mines at nonce 3, and in
  \<open>zero_env\<close> every digest starts with zeros. The sample \<^verbatim>\<open>JSON.stringify\<close> does not
  escape, and the sample \<^verbatim>\<open>toLowerCase\<close> covers ASCII.
\<close>

fun json_value :: "jsv \<Rightarrow> string" where
  "json_value Undefined = ''null''"
| "json_value Null = ''null''"
| "json_value (Bool b) = (if b then ''true'' else ''false'')"
| "json_value (Num n) = toString 10 n"
| "json_value NaN = ''null''"
| "json_value (Str s) = [CHR 0x22] @ s @ [CHR 0x22]"

fun join :: "string \<Rightarrow> string list \<Rightarrow> string" where
  "join sep [] = []"
| "join sep [x] = x"
| "join sep (x # y # ys) = x @ sep @ join sep (y # ys)"

definition sample_stringify :: "obj \<Rightarrow> string" where
  "sample_stringify ps =
     ''{'' @ join '','' (map (\<lambda>(k, v). [CHR 0x22] @ k @ [CHR 0x22] @ '':'' @ json_value v) ps)
     @ ''}''"

definition sample_lower :: "string \<Rightarrow> string" where
  "sample_lower = map (\<lambda>c.
     case map_of (zip ''ABCDEFGHIJKLMNOPQRSTUVWXYZ'' ''abcdefghijklmnopqrstuvwxyz'') c of
       None \<Rightarrow> c
     | Some l \<Rightarrow> l)"

definition sample_env :: env where
  "sample_env =
     \<lparr>subtle_digest = (\<lambda>message. if last message = CHR ''1'' then [0, 171] else [18, 52]),
      JSON_stringify = sample_stringify,
      Date_value = (\<lambda>v. if v = Str ''2020-01-01'' then Some 1577836800000
                         else if v = Str ''2030-01-01'' then Some 1893456000000 else None),
      toLowerCase = sample_lower\<rparr>"

definition slow_env :: env where
  "slow_env = sample_env
     \<lparr>subtle_digest := (\<lambda>message. if last message = CHR ''3'' then [0, 171] else [18, 52])\<rparr>"

definition zero_env :: env where
  "zero_env = sample_env\<lparr>subtle_digest := (\<lambda>message. [0, 171])\<rparr>"

definition sample_clock :: "nat \<Rightarrow> clock" where
  "sample_clock k =
     \<lparr>Date_now = 1762041600000 + k,
      toISOString = ''2025-11-02T00:00:00.00'' @ [digit k] @ ''Z'',
      Math_random = ''k3j5x9q2''\<rparr>"

definition fresh :: engine where
  "fresh = initialize sample_env (sample_clock 0) (constructor NoItem)"

definition amoxicillin :: medicineData where
  "amoxicillin =
     \<lparr>batchNumber = Str ''B-001'', medicineName = Str ''Amoxicillin'',
      manufacturerId = Str ''MFR-1'', manufacturerName = Str ''Acme Pharma'',
      expiryDate = Str ''2030-01-01'', extra = [(''quantity'', Num 100)]\<rparr>"

definition sample_block :: block where
  "sample_block = Block 1 ''2025-11-02T00:00:00.003Z''
     [(''type'', Str ''counterfeit_alert''), (''batchNumber'', Str ''B-001'')] ''1234''"

definition sample_calls :: "call list" where
  "sample_calls =
     [RegisterMedicine sample_clock amoxicillin,
      TransferMedicine sample_clock (Str ''B-001'') (Str ''Shipped'') (Str ''Fast Freight'')
        (Str ''Rotterdam''),
      VerifyMedicine sample_clock (Str ''B-001''),
      VerifyMedicine sample_clock (Str ''UNKNOWN-1'')]"

text \<open>A registration without a medicine name, and the engine after it.\<close>

definition nameless :: medicineData where
  "nameless = amoxicillin\<lparr>batchNumber := Str ''B-007'', medicineName := Undefined\<rparr>"

definition nameless_engine :: engine where
  "nameless_engine = the (run sample_env [RegisterMedicine sample_clock nameless] fresh)"

text \<open>A registration without a batch number, and the engine after it.\<close>

definition keyless :: medicineData where
  "keyless = amoxicillin\<lparr>batchNumber := Undefined\<rparr>"

definition keyless_engine :: engine where
  "keyless_engine = the (run sample_env [RegisterMedicine sample_clock keyless] fresh)"

text \<open>The engine after an alert whose reason is \<^verbatim>\<open>NaN\<close>.\<close>

definition nan_engine :: engine where
  "nan_engine = the (run sample_env [CreateAlert sample_clock (Str ''B-001'') NaN] fresh)"

text \<open>The engine after the registration of batch B-001.\<close>

definition registered_engine :: engine where
  "registered_engine = the (run sample_env [RegisterMedicine sample_clock amoxicillin] fresh)"


fun returned :: "alert_call \<Rightarrow> bool" where
  "returned (Settled (Inr a)) = True"
| "returned c = False"


text \<open>An engine loaded from a saved document with a record that is sold and has expired.\<close>

definition sold_expired :: medicine where
  "sold_expired =
     \<lparr>batchNumber = Str ''B-OLD'', medicineName = Str ''Ibuprofen'',
      manufacturerId = Str ''MFR-1'', manufacturerName = Str ''Acme Pharma'',
      expiryDate = Str ''2020-01-01'', extra = [],
      registeredAt = ''2019-01-01T00:00:00.000Z'', status = ''sold'', scanCount = 0,
      supplyChain = Some [\<lparr>stage = Str ''Manufactured'', actor = Str ''Acme Pharma'',
                           location = Str ''Manufacturing Plant'',
                           cp_timestamp = ''2019-01-01T00:00:00.000Z'', txHash = ''0x1234''\<rparr>],
      verifications = [], blockHash = Some ''1234'', blockNumber = Some 0\<rparr>"

definition sold_engine :: engine where
  "sold_engine = initialize sample_env (sample_clock 0)
     (constructor (Saved \<lparr>doc_chain = Some (chain fresh),
                          doc_medicines = Entries [(Str ''B-OLD'', sold_expired)],
                          doc_transactions = None, doc_alerts = None,
                          doc_scanHistory = None\<rparr>))"

text \<open>
  A batch whose expiry date has passed, registered and then verified on 2025-11-02, in
  the engine and in the contract.
\<close>

definition sample_msg :: msg where
  "sample_msg = \<lparr>sender = 1, block_timestamp = 1762041600\<rparr>"

definition expired_batch :: medicineData where
  "expired_batch = amoxicillin\<lparr>batchNumber := Str ''B-EXP'', expiryDate := Str ''2020-01-01''\<rparr>"

definition expired_engine_verdict :: "(error + bool) option" where
  "expired_engine_verdict =
     map_option (map_sum id isAuthentic \<circ> fst)
       (verifyMedicine sample_env sample_clock (Str ''B-EXP'')
          (the (run sample_env [RegisterMedicine sample_clock expired_batch] fresh)))"

definition expired_contract_verdict :: "revert + (bool \<times> string)" where
  "expired_contract_verdict =
     (case MediChain_registerMedicine sample_msg ''Amoxicillin'' ''B-EXP'' ''MFR-1'' ''Acme Pharma''
             ''2019-01-01'' ''2020-01-01'' (MediChain_constructor sample_msg) of
        Inl e \<Rightarrow> Inl e
      | Inr c \<Rightarrow>
          (case MediChain_verifyMedicine sample_msg ''B-EXP'' c of
             Inl e \<Rightarrow> Inl e
           | Inr (r, c') \<Rightarrow> Inr r))"

text \<open>A registration with an empty batch number.\<close>

definition unnamed_batch :: medicineData where
  "unnamed_batch = amoxicillin\<lparr>batchNumber := Str []\<rparr>"

text \<open>The contract after the registration of batch B-001 by its owner.\<close>

definition sample_contract :: MediChain where
  "sample_contract =
     (case MediChain_registerMedicine sample_msg ''Amoxicillin'' ''B-001'' ''MFR-1'' ''Acme Pharma''
             ''2025-01-01'' ''2030-01-01'' (MediChain_constructor sample_msg) of
        Inl e \<Rightarrow> MediChain_constructor sample_msg
      | Inr c \<Rightarrow> c)"

section \<open>Evaluation on concrete inputs\<close>

text \<open>The definitions as rewrite rules.\<close>

lemma replicate_2: "replicate 2 c = [c, c]"
  by (simp add: numeral_2_eq_2)

lemmas engine_defs =
  registerMedicine_def verifyMedicine_def verifyMissing_def verifyRecord_def transferMedicine_def
  createAlert_def addBlock_def getLatestBlock_def await_def save_def initialize_def
  createGenesisBlock_def constructor_def Block_def calculateHash_def sha256_def padStart_def
  digit_def Transaction_def generateHash_def property_def orElse_def orEmpty_def newMap_def
  JSON_value_def JSON_element_def JSON_object_def JSON_block_def JSON_transaction_def
  JSON_checkpoint_def JSON_medicine_def JSON_entry_def JSON_alert_def JSON_scan_def
  check2_def check3_def check4_def check5_def check6_def notExpired_def
  mineBlock.simps toString.simps replicate_2 Let_def

lemmas sample_defs =
  sample_env_def slow_env_def zero_env_def sample_clock_def sample_stringify_def
  sample_lower_def fresh_def amoxicillin_def sample_block_def

lemmas contract_defs =
  MediChain_constructor_def MediChain_registerMedicine_def MediChain_verifyMedicine_def
  MediChain_getMedicine_def increment_def sample_msg_def sample_contract_def Let_def

section \<open>Proof of work\<close>

lemma calculateHash_hash_update [simp]: "calculateHash E (b\<lparr>hash := h\<rparr>) = calculateHash E b"
  by (simp add: calculateHash_def)

lemma calculateHash_hash_nonce_update [simp]:
  "calculateHash E (b\<lparr>hash := h, nonce := n\<rparr>) = calculateHash E (b\<lparr>nonce := n\<rparr>)"
  by (simp add: calculateHash_def)

lemma mined_step:
  "mineBlock E d (mined E b n) =
     (if meets E d b n then Some (mined E b n) else mineBlock E d (mined E b (n + 1)))"
  by (subst mineBlock.simps) (simp add: mined_def meets_def)

lemma mined_search:
  assumes "meets E d b n" and "\<forall>k. j \<le> k \<and> k < n \<longrightarrow> \<not> meets E d b k" and "j \<le> n"
  shows "mineBlock E d (mined E b j) = Some (mined E b n)"
  using assms
proof (induction "n - j" arbitrary: j)
  case 0
  then have "j = n" by simp
  with "0.prems" show ?case by (simp add: mined_step)
next
  case (Suc m)
  then have "j < n" by simp
  with Suc.prems have "\<not> meets E d b j" by simp
  moreover have "mineBlock E d (mined E b (j + 1)) = Some (mined E b n)"
    using Suc.hyps(1)[of "j + 1"] Suc.hyps(2) Suc.prems \<open>j < n\<close> by simp
  ultimately show ?case by (simp add: mined_step)
qed

lemma mineBlock_start:
  assumes "0 < d" and "nonce b = 0" and "hash b = []"
  shows "mineBlock E d b = mineBlock E d (mined E b 1)"
  using assms by (subst mineBlock.simps) (simp add: mined_def)

lemma mined_returns:
  assumes "mineBlock E d b0 = Some y"
  shows "\<forall>b j. b0 = mined E b j \<longrightarrow> (\<exists>n\<ge>j. meets E d b n)"
  using assms
proof (induction rule: mineBlock.raw_induct[rotated 1, consumes 1])
  case (1 mineBlock E d b0 y)
  show ?case
  proof (intro allI impI)
    fix b j assume eq: "b0 = mined E b j"
    show "\<exists>n\<ge>j. meets E d b n"
    proof (cases "meets E d b j")
      case True then show ?thesis by blast
    next
      case False
      with 1(2) eq have "mineBlock E d (mined E b (j + 1)) = Some y"
        by (simp add: mined_def meets_def)
      from 1(1)[OF this] obtain n where "n \<ge> j + 1" "meets E d b n" by blast
      then show ?thesis by (intro exI[of _ n]) simp
    qed
  qed
qed

text \<open>When no nonce from 1 on meets the difficulty, the search never ends.\<close>

lemma mineBlock_diverges:
  assumes "0 < d" and "\<forall>n\<ge>1. \<not> meets E d (Block i ts p prev) n"
  shows "mineBlock E d (Block i ts p prev) = None"
proof (rule ccontr)
  assume "mineBlock E d (Block i ts p prev) \<noteq> None"
  then obtain y where "mineBlock E d (Block i ts p prev) = Some y" by blast
  with assms(1) have "mineBlock E d (mined E (Block i ts p prev) 1) = Some y"
    by (simp add: mineBlock_start Block_def)
  from mined_returns[OF this] assms(2) show False by blast
qed

lemma mineBlock_fields:
  assumes "mineBlock E d b = Some b'"
  shows "index b' = index b \<and> timestamp b' = timestamp b \<and> data b' = data b
         \<and> previousHash b' = previousHash b
         \<and> take d (hash b') = replicate d (CHR ''0'')
         \<and> (b' = b \<or> hash b' = calculateHash E b')"
  using assms
proof (induction rule: mineBlock.raw_induct[rotated 1, consumes 1])
  case (1 mineBlock E d b b')
  show ?case
  proof (cases "take d (hash b) \<noteq> replicate d (CHR ''0'')")
    case True
    let ?n = "b\<lparr>nonce := nonce b + 1, hash := calculateHash E (b\<lparr>nonce := nonce b + 1\<rparr>)\<rparr>"
    from True 1(2) have "mineBlock E d ?n = Some b'" by simp
    from 1(1)[OF this] show ?thesis by auto
  next
    case False
    with 1(2) show ?thesis by simp
  qed
qed

text \<open>
  Claim C7, as amended. With a positive difficulty, \<^verbatim>\<open>mineBlock\<close> on a new block (nonce 0,
  empty hash) increments the nonce before it computes the first digest: it tries the
  nonces 1, 2, 3, ... one at a time and returns the block with the smallest nonce
  \<open>N \<ge> 1\<close> whose digest over (index, previousHash, timestamp, payload, N) starts with
  \<open>d\<close> zero characters, whenever some nonce from 1 on has such a digest. The digest
  for nonce 0 is never computed.
\<close>

theorem mineBlock_least_nonce:
  assumes "0 < d" and "1 \<le> n" and "meets E d (Block i ts p prev) n"
  shows "\<exists>N. 1 \<le> N \<and> N \<le> n \<and> meets E d (Block i ts p prev) N
             \<and> (\<forall>k. 1 \<le> k \<and> k < N \<longrightarrow> \<not> meets E d (Block i ts p prev) k)
             \<and> mineBlock E d (Block i ts p prev) = Some (mined E (Block i ts p prev) N)"
proof -
  let ?b = "Block i ts p prev"
  define N where "N = (LEAST k. 1 \<le> k \<and> meets E d ?b k)"
  have ex: "1 \<le> n \<and> meets E d ?b n" using assms by simp
  have N: "1 \<le> N \<and> meets E d ?b N" unfolding N_def by (rule LeastI[of _ n]) (rule ex)
  have le: "N \<le> n" unfolding N_def by (rule Least_le) (rule ex)
  have least: "\<forall>k. 1 \<le> k \<and> k < N \<longrightarrow> \<not> meets E d ?b k"
    unfolding N_def using not_less_Least by blast
  have "mineBlock E d ?b = mineBlock E d (mined E ?b 1)"
    using assms(1) by (simp add: mineBlock_start Block_def)
  also have "\<dots> = Some (mined E ?b N)"
    using N least by (intro mined_search) auto
  finally show ?thesis using N le least by blast
qed

theorem mineBlock_least_nonce_witness:
  "(0::nat) < 2 \<and> (1::nat) \<le> 3 \<and> meets slow_env 2 sample_block 3
   \<and> \<not> meets slow_env 2 sample_block 1 \<and> \<not> meets slow_env 2 sample_block 2
   \<and> mineBlock slow_env 2 sample_block = Some (mined slow_env sample_block 3)"
proof -
  have m3: "meets slow_env 2 sample_block 3"
    by (simp add: meets_def engine_defs sample_defs)
  have m1: "\<not> meets slow_env 2 sample_block 1"
    by (simp add: meets_def engine_defs sample_defs)
  have m2: "\<not> meets slow_env 2 sample_block 2"
    by (simp add: meets_def engine_defs sample_defs)
  from mineBlock_least_nonce[of 2 3 slow_env 1 "''2025-11-02T00:00:00.003Z''"
      "[(''type'', Str ''counterfeit_alert''), (''batchNumber'', Str ''B-001'')]" "''1234''"] m3
  obtain N where N: "1 \<le> N" "N \<le> 3" "meets slow_env 2 sample_block N"
    and r: "mineBlock slow_env 2 sample_block = Some (mined slow_env sample_block N)"
    unfolding sample_block_def by auto
  from N(1,2) have "N = 1 \<or> N = 2 \<or> N = 3" by auto
  with N(3) m1 m2 have "N = 3" by auto
  with r m1 m2 m3 show ?thesis by simp
qed

text \<open>
  Claim C7 as stated fails: in \<open>zero_env\<close> the digest for nonce 0 already starts with two
  zeros, so the smallest nonce from 0 on is 0, and \<^verbatim>\<open>mineBlock\<close> returns nonce 1.
\<close>

theorem mineBlock_skips_nonce_zero:
  "meets zero_env 2 sample_block 0
   \<and> mineBlock zero_env 2 sample_block = Some (mined zero_env sample_block 1)
   \<and> nonce (mined zero_env sample_block 1) = 1"
  by (simp add: meets_def mined_def engine_defs sample_defs)

section \<open>Chain validity\<close>

lemma calculateHash_Block [simp]:
  "p = previousHash b \<Longrightarrow>
   calculateHash E ((Block (index b) (timestamp b) (data b) p)\<lparr>nonce := nonce b\<rparr>)
     = calculateHash E b"
  by (simp add: calculateHash_def Block_def)

lemma isChainValid_from_iff:
  "isChainValid_from E c j = (\<forall>i. j \<le> i \<and> i < length c \<longrightarrow>
     hash (c ! i) = calculateHash E (c ! i) \<and> previousHash (c ! i) = hash (c ! (i - 1)))"
proof (induction E c j rule: isChainValid_from.induct)
  case (1 E c i)
  show ?case
  proof (cases "i < length c")
    case False
    then have "isChainValid_from E c i" by (subst isChainValid_from.simps) simp
    with False show ?thesis by auto
  next
    case True
    let ?ok = "hash (c ! i) = calculateHash E (c ! i) \<and> previousHash (c ! i) = hash (c ! (i - 1))"
    show ?thesis
    proof (cases ?ok)
      case False
      with True show ?thesis by (subst isChainValid_from.simps) (auto simp: Let_def)
    next
      case ok: True
      with True have "isChainValid_from E c i = isChainValid_from E c (i + 1)"
        by (subst isChainValid_from.simps) (simp add: Let_def)
      also have "\<dots> = (\<forall>k. i + 1 \<le> k \<and> k < length c \<longrightarrow>
         hash (c ! k) = calculateHash E (c ! k) \<and> previousHash (c ! k) = hash (c ! (k - 1)))"
        by (rule 1[OF True refl refl refl refl]) (use ok in simp_all)
      also have "\<dots> = (\<forall>k. i \<le> k \<and> k < length c \<longrightarrow>
         hash (c ! k) = calculateHash E (c ! k) \<and> previousHash (c ! k) = hash (c ! (k - 1)))"
        (is "?L = ?R")
      proof
        assume L: ?L
        show ?R
        proof (intro allI impI)
          fix k assume k: "i \<le> k \<and> k < length c"
          then consider "k = i" | "i + 1 \<le> k" by linarith
          then show "hash (c ! k) = calculateHash E (c ! k) \<and> previousHash (c ! k) = hash (c ! (k - 1))"
          proof cases
            case 1 with ok show ?thesis by simp
          next
            case 2 with L k show ?thesis by blast
          qed
        qed
      next
        assume R: ?R
        show ?L
        proof (intro allI impI)
          fix k assume "i + 1 \<le> k \<and> k < length c"
          then have "i \<le> k \<and> k < length c" by simp
          with R show "hash (c ! k) = calculateHash E (c ! k) \<and> previousHash (c ! k) = hash (c ! (k - 1))"
            by blast
        qed
      qed
      finally show ?thesis .
    qed
  qed
qed

lemma isChainValid_linked: "isChainValid E s = linked E (chain s)"
  by (simp add: isChainValid_def linked_def isChainValid_from_iff)

lemma linked_snoc:
  assumes "linked E c" and "c \<noteq> []" and "hash b = calculateHash E b"
    and "previousHash b = hash (last c)"
  shows "linked E (c @ [b])"
  unfolding linked_def
proof (intro allI impI)
  fix i assume i: "1 \<le> i \<and> i < length (c @ [b])"
  show "hash ((c @ [b]) ! i) = calculateHash E ((c @ [b]) ! i)
        \<and> previousHash ((c @ [b]) ! i) = hash ((c @ [b]) ! (i - 1))"
  proof (cases "i < length c")
    case True
    then have "i - 1 < length c" by simp
    with True i assms(1) show ?thesis unfolding linked_def nth_append by simp
  next
    case False
    with i have "i = length c" by simp
    with assms show ?thesis by (simp add: nth_append last_conv_nth)
  qed
qed

section \<open>What the operations keep\<close>

lemma await_SomeE:
  assumes "await m f = Some (r, s')"
  obtains (throw) e where "m = Some (Inl e, s')" and "r = Inl e"
        | (val) x s1 where "m = Some (Inr x, s1)" and "f x s1 = Some (r, s')"
  using assms by (auto simp: await_def split: option.splits sum.splits prod.splits)

lemma keys_update: "distinct (map fst (AList.update k v al)) = distinct (map fst al)"
  by (induction al) (auto simp: AList.update_keys)

lemma save_fields [simp]:
  "chain (save s) = chain s" "medicines (save s) = medicines s"
  "transactions (save s) = transactions s" "alerts (save s) = alerts s"
  "scanHistory (save s) = scanHistory s" "difficulty (save s) = difficulty s"
  by (simp_all add: save_def)

lemma stored_ok_fields [simp]:
  "stored_ok (save s) = stored_ok s"
  "stored_ok (s\<lparr>medicines := AList.update k v (medicines s)\<rparr>) = stored_ok s"
  "stored_ok (s\<lparr>transactions := ts\<rparr>) = stored_ok s"
  "stored_ok (s\<lparr>alerts := as\<rparr>) = stored_ok s"
  "stored_ok (s\<lparr>scanHistory := hs\<rparr>) = stored_ok s"
  by (simp_all add: stored_ok_def save_def keys_update)

lemma sound_fields [simp]:
  "sound E (save s) = sound E s"
  "sound E (s\<lparr>medicines := AList.update k v (medicines s)\<rparr>) = sound E s"
  "sound E (s\<lparr>transactions := ts\<rparr>) = sound E s"
  "sound E (s\<lparr>alerts := as\<rparr>) = sound E s"
  "sound E (s\<lparr>scanHistory := hs\<rparr>) = sound E s"
  by (simp_all add: sound_def)

lemma addBlock_cases:
  assumes "addBlock E c d s = Some (r, s')" and "chain s \<noteq> []"
  obtains b where "r = Inr b" and "s' = save (s\<lparr>chain := chain s @ [b]\<rparr>)"
    and "mineBlock E (difficulty s)
           (Block (length (chain s)) (toISOString c) d (hash (last (chain s)))) = Some b"
  using assms by (auto simp: addBlock_def getLatestBlock_def split: option.splits)

lemma mined_block_linked:
  assumes m: "mineBlock E d (Block i ts p prev) = Some b" and dz: "0 < d"
  shows "hash b = calculateHash E b \<and> previousHash b = prev \<and> index b = i"
proof -
  let ?b0 = "Block i ts p prev"
  from mineBlock_fields[OF m] have f: "previousHash b = prev" "index b = i"
    "take d (hash b) = replicate d (CHR ''0'')" "b = ?b0 \<or> hash b = calculateHash E b"
    by (simp_all add: Block_def)
  have "b \<noteq> ?b0"
  proof
    assume "b = ?b0"
    then have "hash b = []" by (simp add: Block_def)
    with f(3) dz show False by (cases d) simp_all
  qed
  with f show ?thesis by simp
qed

text \<open>The step every operation shares: awaiting \<^verbatim>\<open>addBlock\<close> on an engine with a chain.\<close>

lemma await_addBlock:
  assumes "await (addBlock E c d s0) f = Some (r, s')" and "stored_ok s0"
  obtains b s1 where "f b s1 = Some (r, s')" and "stored_ok s1"
    and "sound E s0 \<Longrightarrow> sound E s1"
    and "chain s1 = chain s0 @ [b]" and "medicines s1 = medicines s0"
    and "transactions s1 = transactions s0" and "alerts s1 = alerts s0"
    and "scanHistory s1 = scanHistory s0" and "index b = length (chain s0)"
proof -
  from assms(2) have ne: "chain s0 \<noteq> []" by (simp add: stored_ok_def)
  from assms(1) show ?thesis
  proof (cases rule: await_SomeE)
    case (throw e)
    with ne show ?thesis by (auto elim: addBlock_cases)
  next
    case (val b s1)
    from val(1) ne have s1: "s1 = save (s0\<lparr>chain := chain s0 @ [b]\<rparr>)"
      and m: "mineBlock E (difficulty s0)
                (Block (length (chain s0)) (toISOString c) d (hash (last (chain s0)))) = Some b"
      by (auto elim: addBlock_cases)
    from mineBlock_fields[OF m] have ix: "index b = length (chain s0)" by (simp add: Block_def)
    from assms(2) s1 have ok: "stored_ok s1" by (simp add: stored_ok_def save_def)
    have snd: "sound E s1" if "sound E s0"
    proof -
      from that have dz: "0 < difficulty s0" and lk: "linked E (chain s0)" by (simp_all add: sound_def)
      from mined_block_linked[OF m dz] lk ne have "linked E (chain s0 @ [b])"
        by (intro linked_snoc) simp_all
      with dz ok s1 show ?thesis by (simp add: sound_def save_def)
    qed
    show ?thesis using that[of b s1] val(2) s1 ok snd ix by (simp add: save_def)
  qed
qed

lemma createAlert_keeps:
  assumes "createAlert E clk batch why s = Some (r, s')" and "stored_ok s"
  shows "stored_ok s' \<and> (sound E s \<longrightarrow> sound E s') \<and> (\<exists>a. r = Inr a)"
  using assms
  apply (simp add: createAlert_def Let_def)
  apply (erule await_addBlock)
   apply simp
  apply auto
  done

lemma verifyRecord_keeps:
  assumes "verifyRecord E clk batch m ca s = Some (r, s')" and "stored_ok s"
  shows "stored_ok s' \<and> (sound E s \<longrightarrow> sound E s')"
  using assms
  apply (cases ca)
  apply (simp add: verifyRecord_def Let_def)
  apply (erule await_addBlock)
   apply simp
  apply (auto split: if_splits elim!: await_SomeE dest: createAlert_keeps)
  done

lemma registerMedicine_keeps:
  assumes "registerMedicine E clk md s = Some (r, s')" and "stored_ok s"
  shows "stored_ok s' \<and> (sound E s \<longrightarrow> sound E s')"
proof (cases "map_of (medicines s) (batchNumber md) \<noteq> None")
  case True
  with assms show ?thesis by (simp add: registerMedicine_def)
next
  case False
  with assms show ?thesis
    apply (simp add: registerMedicine_def Let_def)
    apply (erule await_addBlock)
     apply simp
    apply (auto simp: sound_def stored_ok_def save_def keys_update Let_def)
    done
qed

lemma transferMedicine_keeps:
  assumes "transferMedicine E clk batch stg act loc s = Some (r, s')" and "stored_ok s"
  shows "stored_ok s' \<and> (sound E s \<longrightarrow> sound E s')"
proof (cases "map_of (medicines s) batch")
  case None
  with assms show ?thesis by (simp add: transferMedicine_def)
next
  case (Some m)
  with assms show ?thesis
    apply (simp add: transferMedicine_def Let_def)
    apply (erule await_addBlock)
     apply simp
    apply (auto simp: sound_def stored_ok_def save_def keys_update Let_def split: option.splits)
    done
qed

lemma verifyMissing_keeps:
  assumes "verifyMissing E clk batch s = Some (r, s')" and "stored_ok s"
  shows "stored_ok s' \<and> (sound E s \<longrightarrow> sound E s')"
  using assms
  apply (simp add: verifyMissing_def Let_def)
  apply (erule await_SomeE)
   apply (auto dest: createAlert_keeps)[1]
  apply (frule (1) createAlert_keeps[where E = E])
  apply (erule await_addBlock)
   apply simp
  apply auto
  done

lemma verifyMedicine_keeps:
  assumes "verifyMedicine E clk batch s = Some (r, s')" and "stored_ok s"
  shows "stored_ok s' \<and> (sound E s \<longrightarrow> sound E s')"
  using assms
  by (auto simp: verifyMedicine_def dest: verifyMissing_keeps verifyRecord_keeps split: option.splits)

lemma perform_keeps:
  assumes "perform E c s = Some s'" and "stored_ok s"
  shows "stored_ok s' \<and> (sound E s \<longrightarrow> sound E s')"
  using assms
  by (cases c)
     (auto dest: registerMedicine_keeps verifyMedicine_keeps transferMedicine_keeps createAlert_keeps)

lemma run_keeps:
  assumes "run E cs s = Some s'" and "stored_ok s"
  shows "stored_ok s' \<and> (sound E s \<longrightarrow> sound E s')"
  using assms
proof (induction cs arbitrary: s)
  case Nil
  then show ?case by simp
next
  case (Cons c cs)
  from Cons.prems(1) obtain s1 where p: "perform E c s = Some s1" and r: "run E cs s1 = Some s'"
    by (auto split: option.splits)
  from perform_keeps[OF p Cons.prems(2)] have "stored_ok s1" "sound E s \<longrightarrow> sound E s1" by simp_all
  with Cons.IH[OF r] show ?case by blast
qed


section \<open>How the chain and the alerts grow\<close>

lemma await_addBlock_grows:
  assumes "await (addBlock E c d s0) f = Some (r, s')" and "chain s0 \<noteq> []"
  obtains b s1 where "f b s1 = Some (r, s')" and "chain s1 = chain s0 @ [b]"
    and "alerts s1 = alerts s0" and "data b = d" and "index b = length (chain s0)"
  using assms(1)
proof (cases rule: await_SomeE)
  case (throw e)
  with assms(2) show ?thesis by (auto elim: addBlock_cases)
next
  case (val b s1)
  from val(1) assms(2) have s1: "s1 = save (s0\<lparr>chain := chain s0 @ [b]\<rparr>)"
    and m: "mineBlock E (difficulty s0)
              (Block (length (chain s0)) (toISOString c) d (hash (last (chain s0)))) = Some b"
    by (auto elim: addBlock_cases)
  from mineBlock_fields[OF m] have "data b = d" "index b = length (chain s0)"
    by (simp_all add: Block_def)
  with that[of b s1] val(2) s1 show ?thesis by simp
qed

lemma createAlert_grows:
  assumes "createAlert E clk batch why s = Some (r, s')" and "chain s \<noteq> []"
  shows "\<exists>a b. r = Inr a \<and> alert_batchNumber a = batch \<and> reason a = why
           \<and> alerts s' = alerts s @ [a] \<and> chain s' = chain s @ [b]
           \<and> index b = length (chain s)
           \<and> data b = [(''type'', Str ''counterfeit_alert'')] @ property ''batchNumber'' batch
                 @ property ''reason'' why
                 @ [(''txHash'', Str (tx_hash (generateHash E (Transaction (clk 1) ''alert''
                      (property ''batchNumber'' batch @ property ''reason'' why)
                      (Str ''system'')))))]"
  using assms
  apply (simp add: createAlert_def Let_def)
  apply (erule await_addBlock_grows)
   apply simp
  apply auto
  done

lemma verifyMissing_grows:
  assumes "verifyMissing E clk batch s = Some (r, s')" and "chain s \<noteq> []"
  shows "(\<exists>v. r = Inr v \<and> \<not> isAuthentic v \<and> v_medicine v = None)
         \<and> (\<exists>a b1 b2. alerts s' = alerts s @ [a] \<and> alert_batchNumber a = batch
              \<and> reason a = Str ''Medicine not found on blockchain''
              \<and> chain s' = chain s @ [b1, b2]
              \<and> index b1 = length (chain s) \<and> index b2 = length (chain s) + 1
              \<and> data b1 = [(''type'', Str ''counterfeit_alert'')] @ property ''batchNumber'' batch
                    @ [(''reason'', Str ''Medicine not found on blockchain''),
                       (''txHash'', Str (tx_hash (generateHash E (Transaction (clk 1) ''alert''
                          (property ''batchNumber'' batch
                           @ [(''reason'', Str ''Medicine not found on blockchain'')])
                          (Str ''system'')))))]
              \<and> data b2 = [(''type'', Str ''verification_failed'')] @ property ''batchNumber'' batch
                    @ [(''txHash'', Str (tx_hash (generateHash E (Transaction (clk 3) ''verification''
                          (property ''batchNumber'' batch
                           @ [(''result'', Str ''COUNTERFEIT''),
                              (''reason'', Str ''Not found on blockchain'')])
                          (Str ''verifier'')))))])"
proof -
  from assms(1) show ?thesis
    unfolding verifyMissing_def Let_def
  proof (cases rule: await_SomeE)
    case (throw e)
    from createAlert_grows[OF throw(1) assms(2)] show ?thesis by simp
  next
    case (val a s1)
    from createAlert_grows[OF val(1) assms(2)]
    obtain a' b1 where a: "alert_batchNumber a' = batch"
        "reason a' = Str ''Medicine not found on blockchain''"
        "alerts s1 = alerts s @ [a']" "chain s1 = chain s @ [b1]"
        "index b1 = length (chain s)"
        "data b1 = [(''type'', Str ''counterfeit_alert'')] @ property ''batchNumber'' batch
            @ property ''reason'' (Str ''Medicine not found on blockchain'')
            @ [(''txHash'', Str (tx_hash (generateHash E (Transaction (clk 1) ''alert''
                 (property ''batchNumber'' batch
                  @ property ''reason'' (Str ''Medicine not found on blockchain''))
                 (Str ''system'')))))]"
      by blast
    from a(4) have ne: "chain s1 \<noteq> []" by simp
    have p: "property ''reason'' (Str ''Medicine not found on blockchain'')
               = [(''reason'', Str ''Medicine not found on blockchain'')]"
      by (simp add: property_def)
    from val(2) ne show ?thesis
      apply -
      apply (erule await_addBlock_grows)
       apply assumption
      using a p apply auto
      done
  qed
qed

section \<open>Termination of the operations\<close>

lemma mineBlock_returns:
  assumes "\<forall>b. \<exists>n\<ge>1. meets E d b n"
  shows "\<exists>b. mineBlock E d (Block i ts p prev) = Some b"
proof (cases "0 < d")
  case True
  from assms obtain n where "1 \<le> n" "meets E d (Block i ts p prev) n" by blast
  have "mineBlock E d (Block i ts p prev) = mineBlock E d (mined E (Block i ts p prev) 1)"
    using True by (simp add: mineBlock_start Block_def)
  moreover have "mineBlock E d (mined E (Block i ts p prev) 1) \<noteq> None"
  proof -
    define N where "N = (LEAST k. 1 \<le> k \<and> meets E d (Block i ts p prev) k)"
    have ex: "1 \<le> n \<and> meets E d (Block i ts p prev) n" using \<open>1 \<le> n\<close> \<open>meets E d (Block i ts p prev) n\<close> by simp
    have N: "1 \<le> N \<and> meets E d (Block i ts p prev) N" unfolding N_def by (rule LeastI[of _ n]) (rule ex)
    have least: "\<forall>k. 1 \<le> k \<and> k < N \<longrightarrow> \<not> meets E d (Block i ts p prev) k"
      unfolding N_def using not_less_Least by blast
    have "mineBlock E d (mined E (Block i ts p prev) 1) = Some (mined E (Block i ts p prev) N)"
      using N least by (intro mined_search) auto
    then show ?thesis by simp
  qed
  ultimately show ?thesis by auto
next
  case False
  then show ?thesis by (subst mineBlock.simps) simp
qed

lemma addBlock_returns:
  assumes "chain s \<noteq> []" and "\<forall>b. \<exists>n\<ge>1. meets E (difficulty s) b n"
  shows "\<exists>b. addBlock E c d s = Some (Inr b, save (s\<lparr>chain := chain s @ [b]\<rparr>))"
proof -
  from mineBlock_returns[OF assms(2)] obtain b where
    "mineBlock E (difficulty s) (Block (length (chain s)) (toISOString c) d (hash (last (chain s)))) = Some b"
    by blast
  with assms(1) show ?thesis by (simp add: addBlock_def getLatestBlock_def)
qed

lemma await_addBlock_returns:
  assumes "chain s \<noteq> []" and "\<forall>b. \<exists>n\<ge>1. meets E (difficulty s) b n"
    and "\<And>b. \<exists>r s'. f b (save (s\<lparr>chain := chain s @ [b]\<rparr>)) = Some (r, s') \<and> Q r s'"
  shows "\<exists>r s'. await (addBlock E c d s) f = Some (r, s') \<and> Q r s'"
proof -
  from addBlock_returns[OF assms(1,2)] obtain b where
    "addBlock E c d s = Some (Inr b, save (s\<lparr>chain := chain s @ [b]\<rparr>))" by blast
  with assms(3)[of b] show ?thesis by (simp add: await_def)
qed

lemma createAlert_returns:
  assumes "chain s \<noteq> []" and "\<forall>b. \<exists>n\<ge>1. meets E (difficulty s) b n"
  shows "\<exists>r s'. createAlert E clk batch why s = Some (r, s') \<and>
           ((\<exists>a. r = Inr a) \<and> chain s' \<noteq> [] \<and> difficulty s' = difficulty s)"
  unfolding createAlert_def Let_def
  apply (rule await_addBlock_returns)
  using assms apply simp_all
  done

lemma await_value [simp]: "await (Some (Inr x, s)) f = f x s"
  by (simp add: await_def)

lemma verifyMissing_returns:
  assumes "chain s \<noteq> []" and "\<forall>b. \<exists>n\<ge>1. meets E (difficulty s) b n"
  shows "\<exists>r s'. verifyMissing E clk batch s = Some (r, s') \<and> (\<exists>v. r = Inr v)"
proof -
  from createAlert_returns[OF assms, of clk batch "Str ''Medicine not found on blockchain''"]
  obtain a s1 where c: "createAlert E clk batch (Str ''Medicine not found on blockchain'') s = Some (Inr a, s1)"
    and ne: "chain s1 \<noteq> []" and d: "difficulty s1 = difficulty s" by blast
  from assms(2) d have m: "\<forall>b. \<exists>n\<ge>1. meets E (difficulty s1) b n" by simp
  show ?thesis
    unfolding verifyMissing_def Let_def c await_value
    by (rule await_addBlock_returns[OF ne m]) simp
qed

section \<open>Validity of the chain after any sequence of calls\<close>

text \<open>The sample calls run to the end: six blocks, one medicine, one alert.\<close>

lemma sample_run:
  "map_option (\<lambda>s. (length (chain s), map fst (medicines s), length (alerts s)))
     (run sample_env sample_calls fresh) = Some (6, [Str ''B-001''], 1)"
  by (simp add: sample_calls_def engine_defs sample_defs)



text \<open>
  The three turns of \<^verbatim>\<open>createAlert\<close>, taken with no other call in between, are the
  method run from its call to its end.
\<close>

lemma createAlert_turns:
  "turns E [0, 0, 0] [Called clk batch why] s
     = map_option (\<lambda>(r, s'). ([Settled r], s')) (createAlert E clk batch why s)"
  by (simp add: createAlert_def addBlock_def getLatestBlock_def await_def Let_def
      split: option.splits)

text \<open>
  Two calls of \<^verbatim>\<open>createAlert\<close> that take their turns alternately, on any engine with a
  chain and for any digest: both return, and both new blocks get the same index and the
  same previousHash, the hash of the block that was the latest before. The chain can
  then be valid only if the first new block has the very hash of that block.
\<close>

lemma overlapping_alerts:
  assumes "turns E [0, 1, 0, 1, 0, 1] [Called clk batch why, Called clk' batch' why'] s
             = Some (cs, s')"
    and "chain s \<noteq> []"
  shows "\<exists>a b. chain s' = chain s @ [a, b] \<and> map returned cs = [True, True]
           \<and> index a = length (chain s) \<and> index b = length (chain s)
           \<and> previousHash a = hash (last (chain s)) \<and> previousHash b = hash (last (chain s))
           \<and> (isChainValid E s' \<longrightarrow> hash a = hash (last (chain s)))"
proof -
  from assms obtain a b where c: "chain s' = chain s @ [a, b]"
    and r: "map returned cs = [True, True]"
    and i: "index a = length (chain s)" "index b = length (chain s)"
    and p: "previousHash a = hash (last (chain s))" "previousHash b = hash (last (chain s))"
    by (auto simp: getLatestBlock_def Let_def Block_def split: option.splits
        dest!: mineBlock_fields)
  have "hash a = hash (last (chain s))" if "isChainValid E s'"
  proof -
    from that have "linked E (chain s')" by (simp add: isChainValid_linked)
    then have "previousHash (chain s' ! (length (chain s) + 1)) = hash (chain s' ! length (chain s))"
      unfolding linked_def using c by (auto simp: nth_append)
    with c p show ?thesis by (simp add: nth_append)
  qed
  then have "isChainValid E s' \<longrightarrow> hash a = hash (last (chain s))" by simp
  with c r i p show ?thesis by (intro exI[of _ a] exI[of _ b]) simp
qed


section \<open>Verification of a batch that is not registered\<close>

text \<open>
  Claim C3, as amended. In every engine state with a chain that is not empty in which the
  batch identifier is not in the medicine map, a call of \<^verbatim>\<open>verifyMedicine\<close> that returns
  gives \<^verbatim>\<open>isAuthentic = false\<close> and \<^verbatim>\<open>medicine = null\<close>, makes the list of alerts longer
  by exactly one, and makes the chain longer by exactly two blocks. The new alert is the
  one for this batch with the reason \<^verbatim>\<open>Medicine not found on blockchain\<close>. The first new
  block is the one that \<^verbatim>\<open>createAlert\<close> appends: its payload has the type
  \<^verbatim>\<open>counterfeit_alert\<close>, this batch, that reason and the hash of the alert transaction.
  The second is the one that \<^verbatim>\<open>verifyMedicine\<close> appends itself: its payload has the type
  \<^verbatim>\<open>verification_failed\<close>, this batch and the hash of the verification transaction.
  The two blocks take the next two indices. The call returns whenever every block has a
  nonce from 1 on that meets the difficulty.
\<close>

theorem verify_unregistered:
  assumes "map_of (medicines s) batch = None" and "chain s \<noteq> []"
  shows "(\<forall>r s'. verifyMedicine E clk batch s = Some (r, s') \<longrightarrow>
            (\<exists>v. r = Inr v \<and> \<not> isAuthentic v \<and> v_medicine v = None)
            \<and> length (alerts s') = length (alerts s) + 1
            \<and> length (chain s') = length (chain s) + 2
            \<and> (\<exists>a b1 b2. alerts s' = alerts s @ [a] \<and> alert_batchNumber a = batch
                 \<and> reason a = Str ''Medicine not found on blockchain''
                 \<and> chain s' = chain s @ [b1, b2]
                 \<and> index b1 = length (chain s) \<and> index b2 = length (chain s) + 1
                 \<and> data b1 = [(''type'', Str ''counterfeit_alert'')] @ property ''batchNumber'' batch
                       @ [(''reason'', Str ''Medicine not found on blockchain''),
                          (''txHash'', Str (tx_hash (generateHash E (Transaction (clk 1) ''alert''
                             (property ''batchNumber'' batch
                              @ [(''reason'', Str ''Medicine not found on blockchain'')])
                             (Str ''system'')))))]
                 \<and> data b2 = [(''type'', Str ''verification_failed'')] @ property ''batchNumber'' batch
                       @ [(''txHash'', Str (tx_hash (generateHash E (Transaction (clk 3) ''verification''
                             (property ''batchNumber'' batch
                              @ [(''result'', Str ''COUNTERFEIT''),
                                 (''reason'', Str ''Not found on blockchain'')])
                             (Str ''verifier'')))))]))
         \<and> ((\<forall>b. \<exists>n\<ge>1. meets E (difficulty s) b n) \<longrightarrow>
              (\<exists>r s'. verifyMedicine E clk batch s = Some (r, s')))"
proof (intro conjI allI impI)
  fix r s' assume "verifyMedicine E clk batch s = Some (r, s')"
  with assms(1) have "verifyMissing E clk batch s = Some (r, s')" by (simp add: verifyMedicine_def)
  note g = verifyMissing_grows[OF this assms(2)]
  from g show "\<exists>v. r = Inr v \<and> \<not> isAuthentic v \<and> v_medicine v = None" by simp
  from g show "\<exists>a b1 b2. alerts s' = alerts s @ [a] \<and> alert_batchNumber a = batch
                 \<and> reason a = Str ''Medicine not found on blockchain''
                 \<and> chain s' = chain s @ [b1, b2]
                 \<and> index b1 = length (chain s) \<and> index b2 = length (chain s) + 1
                 \<and> data b1 = [(''type'', Str ''counterfeit_alert'')] @ property ''batchNumber'' batch
                       @ [(''reason'', Str ''Medicine not found on blockchain''),
                          (''txHash'', Str (tx_hash (generateHash E (Transaction (clk 1) ''alert''
                             (property ''batchNumber'' batch
                              @ [(''reason'', Str ''Medicine not found on blockchain'')])
                             (Str ''system'')))))]
                 \<and> data b2 = [(''type'', Str ''verification_failed'')] @ property ''batchNumber'' batch
                       @ [(''txHash'', Str (tx_hash (generateHash E (Transaction (clk 3) ''verification''
                             (property ''batchNumber'' batch
                              @ [(''result'', Str ''COUNTERFEIT''),
                                 (''reason'', Str ''Not found on blockchain'')])
                             (Str ''verifier'')))))]"
    by simp
  from g obtain a b1 b2 where "alerts s' = alerts s @ [a]" "chain s' = chain s @ [b1, b2]"
    by blast
  then show "length (alerts s') = length (alerts s) + 1"
    and "length (chain s') = length (chain s) + 2" by simp_all
next
  assume "\<forall>b. \<exists>n\<ge>1. meets E (difficulty s) b n"
  moreover note assms(2)
  ultimately have "\<exists>r s'. verifyMissing E clk batch s = Some (r, s')"
    using verifyMissing_returns[of s E clk batch] by blast
  with assms(1) show "\<exists>r s'. verifyMedicine E clk batch s = Some (r, s')" by (simp add: verifyMedicine_def)
qed

text \<open>In the sample environment nonce 1 always meets the difficulty.\<close>

lemma sample_minable: "\<forall>b. \<exists>n\<ge>1. meets sample_env 2 b n"
proof
  fix b
  have "meets sample_env 2 b 1"
    by (simp add: meets_def calculateHash_def sha256_def padStart_def digit_def toString.simps
        sample_env_def replicate_2)
  then show "\<exists>n\<ge>1. meets sample_env 2 b n" by blast
qed

lemma fresh_ok: "stored_ok fresh \<and> difficulty fresh = 2 \<and> medicines fresh = [] \<and> alerts fresh = []
    \<and> length (chain fresh) = 1"
  by (simp add: fresh_def initialize_def constructor_def createGenesisBlock_def Let_def
      stored_ok_def save_def)

lemma sample_hashes:
  "tx_hash (generateHash sample_env (Transaction (sample_clock k) type d from)) = ''0x1234''"
  by (simp add: generateHash_def Transaction_def sha256_def padStart_def digit_def toString.simps
      sample_env_def sample_clock_def)

theorem verify_unregistered_witness:
  "map_of (medicines fresh) (Str ''UNKNOWN-1'') = None \<and> chain fresh \<noteq> []
   \<and> (\<exists>r s'. verifyMedicine sample_env sample_clock (Str ''UNKNOWN-1'') fresh = Some (r, s')
         \<and> (\<exists>v. r = Inr v \<and> \<not> isAuthentic v \<and> v_medicine v = None)
         \<and> length (alerts s') = 1 \<and> length (chain s') = 3
         \<and> (\<exists>a b1 b2. alerts s' = [a] \<and> alert_batchNumber a = Str ''UNKNOWN-1''
               \<and> reason a = Str ''Medicine not found on blockchain''
               \<and> chain s' = chain fresh @ [b1, b2] \<and> index b1 = 1 \<and> index b2 = 2
               \<and> data b1 = [(''type'', Str ''counterfeit_alert''),
                            (''batchNumber'', Str ''UNKNOWN-1''),
                            (''reason'', Str ''Medicine not found on blockchain''),
                            (''txHash'', Str ''0x1234'')]
               \<and> data b2 = [(''type'', Str ''verification_failed''),
                            (''batchNumber'', Str ''UNKNOWN-1''),
                            (''txHash'', Str ''0x1234'')]))"
proof -
  have a: "map_of (medicines fresh) (Str ''UNKNOWN-1'') = None" using fresh_ok by simp
  have b: "chain fresh \<noteq> []" using fresh_ok by (simp add: stored_ok_def)
  have m: "\<forall>b. \<exists>n\<ge>1. meets sample_env (difficulty fresh) b n" using fresh_ok sample_minable by simp
  note t = verify_unregistered[OF a b, of sample_env sample_clock]
  from t m obtain r s' where
    r: "verifyMedicine sample_env sample_clock (Str ''UNKNOWN-1'') fresh = Some (r, s')" by blast
  with t obtain v a' b1 b2 where
    v: "r = Inr v \<and> \<not> isAuthentic v \<and> v_medicine v = None"
    and l: "length (alerts s') = length (alerts fresh) + 1"
       "length (chain s') = length (chain fresh) + 2"
    and g: "alerts s' = alerts fresh @ [a']" "alert_batchNumber a' = Str ''UNKNOWN-1''"
       "reason a' = Str ''Medicine not found on blockchain''"
       "chain s' = chain fresh @ [b1, b2]"
       "index b1 = length (chain fresh)" "index b2 = length (chain fresh) + 1"
       "data b1 = [(''type'', Str ''counterfeit_alert'')] @ property ''batchNumber'' (Str ''UNKNOWN-1'')
           @ [(''reason'', Str ''Medicine not found on blockchain''),
              (''txHash'', Str (tx_hash (generateHash sample_env (Transaction (sample_clock 1) ''alert''
                 (property ''batchNumber'' (Str ''UNKNOWN-1'')
                  @ [(''reason'', Str ''Medicine not found on blockchain'')])
                 (Str ''system'')))))]"
       "data b2 = [(''type'', Str ''verification_failed'')] @ property ''batchNumber'' (Str ''UNKNOWN-1'')
           @ [(''txHash'', Str (tx_hash (generateHash sample_env (Transaction (sample_clock 3) ''verification''
                 (property ''batchNumber'' (Str ''UNKNOWN-1'')
                  @ [(''result'', Str ''COUNTERFEIT''),
                     (''reason'', Str ''Not found on blockchain'')])
                 (Str ''verifier'')))))]"
    by blast
  from l fresh_ok have l': "length (alerts s') = 1" "length (chain s') = 3" by simp_all
  from g fresh_ok have g': "alerts s' = [a']" "index b1 = 1" "index b2 = 2"
    "data b1 = [(''type'', Str ''counterfeit_alert''), (''batchNumber'', Str ''UNKNOWN-1''),
                (''reason'', Str ''Medicine not found on blockchain''), (''txHash'', Str ''0x1234'')]"
    "data b2 = [(''type'', Str ''verification_failed''), (''batchNumber'', Str ''UNKNOWN-1''),
                (''txHash'', Str ''0x1234'')]"
    by (simp_all add: sample_hashes property_def)
  from r v l' g(2,3,4) g' a b show ?thesis by blast
qed

text \<open>
  Claim C3 as stated fails: on the engine that holds the genesis block only, the
  verification of an unknown batch appends two blocks, not one; the second column is
  the type in the payload of each block of the chain afterwards.
\<close>

theorem verify_unregistered_two_blocks:
  "map_of (medicines fresh) (Str ''UNKNOWN-1'') = None \<and> length (chain fresh) = 1
   \<and> length (alerts fresh) = 0
   \<and> map_option (\<lambda>(r, s'). (length (chain s'), map (\<lambda>b. map_of (data b) ''type'') (chain s'),
                              length (alerts s')))
        (verifyMedicine sample_env sample_clock (Str ''UNKNOWN-1'') fresh)
       = Some (3, [Some (Str ''genesis''), Some (Str ''counterfeit_alert''),
                   Some (Str ''verification_failed'')], 1)"
  by (simp add: engine_defs sample_defs)

section \<open>Saving and loading\<close>

lemma update_new_key: "k \<notin> fst ` set al \<Longrightarrow> AList.update k v al = al @ [(k, v)]"
  by (induction al) auto

lemma foldl_update_distinct:
  "distinct (map fst (acc @ xs)) \<Longrightarrow> foldl (\<lambda>m (k, v). AList.update k v m) acc xs = acc @ xs"
proof (induction xs arbitrary: acc)
  case Nil
  then show ?case by simp
next
  case (Cons x xs)
  obtain k v where x: "x = (k, v)" by (cases x)
  from Cons.prems x have "k \<notin> fst ` set acc" by auto
  then have u: "AList.update k v acc = acc @ [(k, v)]" by (rule update_new_key)
  from Cons.prems x have "distinct (map fst ((acc @ [(k, v)]) @ xs))" by simp
  from Cons.IH[OF this] u x show ?case by simp
qed

lemma newMap_distinct: "distinct (map fst xs) \<Longrightarrow> newMap xs = xs"
  using foldl_update_distinct[of "[]" xs] by (simp add: newMap_def)

lemma foldl_update_keys:
  "distinct (map fst acc) \<Longrightarrow> distinct (map fst (foldl (\<lambda>m (k, v). AList.update k v m) acc xs))"
  by (induction xs arbitrary: acc) (auto simp: keys_update)

lemma initialize_stored_ok: "stored_ok (initialize E c (constructor item))"
proof (cases item)
  case (Saved d)
  show ?thesis
  proof (cases "doc_medicines d")
    case (Entries es)
    have "distinct (map fst (newMap es))"
      unfolding newMap_def by (rule foldl_update_keys) simp
    with Saved Entries show ?thesis
      by (simp add: initialize_def constructor_def createGenesisBlock_def Let_def stored_ok_def
          save_def)
  qed (use Saved in \<open>simp_all add: initialize_def constructor_def createGenesisBlock_def Let_def
         stored_ok_def save_def newMap_def\<close>)
qed (simp_all add: initialize_def constructor_def createGenesisBlock_def Let_def stored_ok_def save_def)

text \<open>What a newly constructed engine loads from the item that \<^verbatim>\<open>save\<close> has written.\<close>

lemma load_saved:
  assumes "chain s \<noteq> []"
  shows "initialize E c (constructor (localStorage (save s))) =
           (constructor (localStorage (save s)))
              \<lparr>chain := map JSON_block (chain s),
               medicines := newMap (map JSON_entry (medicines s)),
               transactions := map JSON_transaction (transactions s),
               alerts := map JSON_alert (alerts s),
               scanHistory := map JSON_scan (scanHistory s)\<rparr>"
  using assms by (simp add: initialize_def save_def constructor_def orEmpty_def)

text \<open>JSON keeps a value that is not \<^verbatim>\<open>NaN\<close>, and a key that is not \<^verbatim>\<open>undefined\<close> either.\<close>

lemma JSON_object_kept: "NaN_free_object ps \<Longrightarrow> JSON_object ps = ps"
  unfolding JSON_object_def NaN_free_object_def
  by (intro map_idI) (auto simp: JSON_value_def)

lemma JSON_checkpoint_kept: "NaN_free_checkpoint p \<Longrightarrow> JSON_checkpoint p = p"
  by (simp add: JSON_checkpoint_def NaN_free_checkpoint_def JSON_value_def)

lemma JSON_medicine_kept:
  assumes "NaN_free_medicine m"
  shows "JSON_medicine m = m"
proof -
  from assms have "map_option (map JSON_checkpoint) (supplyChain m) = supplyChain m"
    by (cases "supplyChain m")
       (auto simp: NaN_free_medicine_def orEmpty_def JSON_checkpoint_kept intro!: map_idI)
  with assms show ?thesis
    by (simp add: JSON_medicine_def NaN_free_medicine_def JSON_value_def JSON_object_kept)
qed

lemma JSON_kept:
  assumes "NaN_free s" and "keyed s"
  shows "map JSON_block (chain s) = chain s"
    and "map JSON_entry (medicines s) = medicines s"
    and "map JSON_transaction (transactions s) = transactions s"
    and "map JSON_alert (alerts s) = alerts s"
    and "map JSON_scan (scanHistory s) = scanHistory s"
proof -
  from assms(1) show "map JSON_block (chain s) = chain s"
    by (intro map_idI) (simp add: NaN_free_def JSON_block_def JSON_object_kept)
  show "map JSON_entry (medicines s) = medicines s"
  proof (rule map_idI)
    fix e assume e: "e \<in> set (medicines s)"
    with assms have "fst e \<noteq> NaN" "fst e \<noteq> Undefined" "NaN_free_medicine (snd e)"
      by (simp_all add: NaN_free_def keyed_def)
    then show "JSON_entry e = e"
      by (cases e) (simp add: JSON_entry_def JSON_element_def JSON_medicine_kept)
  qed
  from assms(1) show "map JSON_transaction (transactions s) = transactions s"
    by (intro map_idI)
       (simp add: NaN_free_def JSON_transaction_def NaN_free_transaction_def JSON_value_def
          JSON_object_kept)
  from assms(1) show "map JSON_alert (alerts s) = alerts s"
    by (intro map_idI) (simp add: NaN_free_def JSON_alert_def JSON_value_def)
  from assms(1) show "map JSON_scan (scanHistory s) = scanHistory s"
    by (intro map_idI) (simp add: NaN_free_def JSON_scan_def JSON_value_def)
qed

text \<open>
  Claim C8, as amended. Take any state reached from an initialized engine by a sequence of
  calls, in which every value is one that JSON represents (of the values of the model
  all but \<^verbatim>\<open>NaN\<close>) and no medicine is stored under the key \<^verbatim>\<open>undefined\<close>. After
  \<^verbatim>\<open>save\<close>, a newly constructed engine that runs \<^verbatim>\<open>initialize\<close> on the saved item has
  the same chain (the same blocks, with all their fields), the same medicine map (the
  same keys in the same order with the same records) and the same transactions, alerts
  and scan history.
\<close>

theorem save_initialize_roundtrip:
  assumes "run E calls (initialize E c0 (constructor item)) = Some s"
    and "NaN_free s" and "keyed s"
  shows "chain (initialize E c1 (constructor (localStorage (save s)))) = chain s
       \<and> medicines (initialize E c1 (constructor (localStorage (save s)))) = medicines s
       \<and> transactions (initialize E c1 (constructor (localStorage (save s)))) = transactions s
       \<and> alerts (initialize E c1 (constructor (localStorage (save s)))) = alerts s
       \<and> scanHistory (initialize E c1 (constructor (localStorage (save s)))) = scanHistory s"
proof -
  from run_keeps[OF assms(1) initialize_stored_ok] have ok: "stored_ok s" by simp
  then have ne: "chain s \<noteq> []" and d: "distinct (map fst (medicines s))"
    by (simp_all add: stored_ok_def)
  note k = JSON_kept[OF assms(2,3)]
  from d have "newMap (medicines s) = medicines s" by (rule newMap_distinct)
  with k show ?thesis by (simp add: load_saved[OF ne])
qed

text \<open>The engine after the registration of batch B-001.\<close>

lemma registered_run:
  "run sample_env [RegisterMedicine sample_clock amoxicillin]
     (initialize sample_env (sample_clock 0) (constructor NoItem)) = Some registered_engine
   \<and> NaN_free registered_engine \<and> keyed registered_engine
   \<and> map fst (medicines registered_engine) = [Str ''B-001'']
   \<and> length (chain registered_engine) = 2"
  by (simp add: registered_engine_def NaN_free_def NaN_free_object_def NaN_free_transaction_def
      NaN_free_checkpoint_def NaN_free_medicine_def keyed_def engine_defs sample_defs)

theorem save_initialize_roundtrip_witness:
  "run sample_env [RegisterMedicine sample_clock amoxicillin]
     (initialize sample_env (sample_clock 0) (constructor NoItem)) = Some registered_engine
   \<and> NaN_free registered_engine \<and> keyed registered_engine
   \<and> map fst (medicines registered_engine) = [Str ''B-001'']
   \<and> chain (initialize sample_env (sample_clock 9)
        (constructor (localStorage (save registered_engine)))) = chain registered_engine
   \<and> medicines (initialize sample_env (sample_clock 9)
        (constructor (localStorage (save registered_engine)))) = medicines registered_engine"
  using registered_run
    save_initialize_roundtrip[of sample_env "[RegisterMedicine sample_clock amoxicillin]"
      "sample_clock 0" NoItem registered_engine "sample_clock 9"]
  by blast

text \<open>
  Claim C8 as stated fails. \<^verbatim>\<open>registerMedicine\<close> accepts an object without a
  \<^verbatim>\<open>batchNumber\<close> and stores the record under the key \<^verbatim>\<open>undefined\<close>. In the saved text
  that key is \<^verbatim>\<open>null\<close>, so the engine that loads it has the record under the key
  \<^verbatim>\<open>null\<close> and none under the key \<^verbatim>\<open>undefined\<close>: the key set has changed.
\<close>

theorem save_initialize_changes_key:
  "run sample_env [RegisterMedicine sample_clock keyless]
     (initialize sample_env (sample_clock 0) (constructor NoItem)) = Some keyless_engine
   \<and> map fst (medicines keyless_engine) = [Undefined]
   \<and> map fst (medicines (initialize sample_env (sample_clock 9)
        (constructor (localStorage (save keyless_engine))))) = [Null]
   \<and> map_of (medicines keyless_engine) Undefined \<noteq> None
   \<and> map_of (medicines (initialize sample_env (sample_clock 9)
        (constructor (localStorage (save keyless_engine))))) Undefined = None"
  by (simp add: keyless_engine_def keyless_def engine_defs sample_defs)

text \<open>
  A value \<^verbatim>\<open>NaN\<close> does not come back either: an alert raised with the reason \<^verbatim>\<open>NaN\<close>
  has the reason \<^verbatim>\<open>null\<close> in the engine that loads the saved item.
\<close>

lemma save_initialize_changes_NaN:
  "run sample_env [CreateAlert sample_clock (Str ''B-001'') NaN]
     (initialize sample_env (sample_clock 0) (constructor NoItem)) = Some nan_engine
   \<and> keyed nan_engine \<and> map reason (alerts nan_engine) = [NaN]
   \<and> map reason (alerts (initialize sample_env (sample_clock 9)
        (constructor (localStorage (save nan_engine))))) = [Null]"
  by (simp add: nan_engine_def keyed_def engine_defs sample_defs)

section \<open>Duplicate registration\<close>

text \<open>
  Claim C5. When the batch identifier is already in the medicine map,
  \<^verbatim>\<open>registerMedicine\<close> throws the error of a duplicate batch and the engine is exactly as
  before: the chain, the transactions, the medicine map and everything else. The
  contract, called by an authorized manufacturer, reverts with its own message for a
  batch that exists, and a revert leaves the storage as it was.
\<close>

theorem register_duplicate:
  "(map_of (medicines s) (batchNumber md) \<noteq> None \<longrightarrow>
      registerMedicine E clk md s =
        Some (Inl (Error (''Batch '' @ tpl (batchNumber md) @ '' already registered on blockchain'')), s))
   \<and> ((authorizedManufacturers c (sender m) \<or> sender m = owner c) \<and> exists (medicines' c batch) \<longrightarrow>
        MediChain_registerMedicine m medName batch mfrId mfrName mfg expiry c =
          Inl (Revert ''Batch number already registered''))"
  by (simp add: registerMedicine_def MediChain_registerMedicine_def)

lemma sample_contract_facts:
  "authorizedManufacturers sample_contract (sender sample_msg)
   \<and> exists (medicines' sample_contract ''B-001'') \<and> allBatchNumbers sample_contract = [''B-001'']"
  by (simp add: contract_defs)

theorem register_duplicate_witness:
  "map_of (medicines (the (run sample_env sample_calls fresh))) (batchNumber amoxicillin) \<noteq> None
   \<and> registerMedicine sample_env sample_clock amoxicillin (the (run sample_env sample_calls fresh))
       = Some (Inl (Error ''Batch B-001 already registered on blockchain''),
               the (run sample_env sample_calls fresh))
   \<and> (authorizedManufacturers sample_contract (sender sample_msg) \<or> sender sample_msg = owner sample_contract)
   \<and> exists (medicines' sample_contract ''B-001'')
   \<and> MediChain_registerMedicine sample_msg ''Amoxicillin'' ''B-001'' ''MFR-1'' ''Acme Pharma''
        ''2025-01-01'' ''2030-01-01'' sample_contract
       = Inl (Revert ''Batch number already registered'')"
proof -
  from sample_run obtain s where s: "run sample_env sample_calls fresh = Some s"
    and m: "map fst (medicines s) = [Str ''B-001'']" by auto
  from m have "Str ''B-001'' \<in> fst ` set (medicines s)" by (metis list.set_intros(1) set_map)
  then have h: "map_of (medicines s) (batchNumber amoxicillin) \<noteq> None"
    by (simp add: amoxicillin_def map_of_eq_None_iff)
  note t = register_duplicate[of s amoxicillin sample_env sample_clock sample_contract sample_msg
      "''B-001''" "''Amoxicillin''" "''MFR-1''" "''Acme Pharma''" "''2025-01-01''" "''2030-01-01''"]
  from t h s sample_contract_facts show ?thesis
    by (simp add: amoxicillin_def)
qed

section \<open>Lookup\<close>

text \<open>
  Claim C10. For a batch identifier that is not in the store, \<^verbatim>\<open>getMedicine\<close> of the
  engine returns \<^verbatim>\<open>null\<close> (it has no way to fail), and \<^verbatim>\<open>getMedicine\<close> of the contract
  reverts with the message \<^verbatim>\<open>Medicine not found\<close>.
\<close>

theorem getMedicine_absent:
  "(map_of (medicines s) key = None \<longrightarrow> getMedicine s key = None)
   \<and> (\<not> exists (medicines' c batch) \<longrightarrow>
        MediChain_getMedicine c batch = Inl (Revert ''Medicine not found''))"
  by (simp add: getMedicine_def MediChain_getMedicine_def)

theorem getMedicine_absent_witness:
  "map_of (medicines fresh) (Str ''UNKNOWN-1'') = None
   \<and> getMedicine fresh (Str ''UNKNOWN-1'') = None
   \<and> \<not> exists (medicines' (MediChain_constructor \<lparr>sender = 1, block_timestamp = 1762041600\<rparr>) ''UNKNOWN-1'')
   \<and> MediChain_getMedicine (MediChain_constructor \<lparr>sender = 1, block_timestamp = 1762041600\<rparr>) ''UNKNOWN-1''
       = Inl (Revert ''Medicine not found'')"
  using getMedicine_absent[of fresh "Str ''UNKNOWN-1''"
      "MediChain_constructor \<lparr>sender = 1, block_timestamp = 1762041600\<rparr>" "''UNKNOWN-1''"] fresh_ok
  by (simp add: MediChain_constructor_def)

section \<open>Search\<close>

lemma filter_throwing_total:
  "(\<exists>ys. filter_throwing p xs = Inr ys) = (\<forall>x\<in>set xs. \<exists>b. p x = Inr b)"
  by (induction xs) (auto split: sum.splits)

lemma filter_throwing_error:
  "filter_throwing p xs = Inl e \<Longrightarrow> \<exists>x\<in>set xs. p x = Inl e"
  by (induction xs) (auto split: sum.splits)

lemma str_includes_length: "str_includes xs q \<Longrightarrow> length q \<le> length xs"
proof (induction xs)
  case Nil
  then show ?case by simp
next
  case (Cons c cs)
  from Cons.prems have "take (length q) (c # cs) = q \<or> str_includes cs q" by simp
  then show ?case
  proof
    assume "take (length q) (c # cs) = q"
    then have "length (take (length q) (c # cs)) = length q" by simp
    then show ?thesis by (simp only: length_take)
  next
    assume "str_includes cs q"
    with Cons.IH show ?thesis by simp
  qed
qed

lemma lower_total: "(\<exists>x. lower E v = Inr x) = (\<exists>x. v = Str x)"
  by (cases v) simp_all

lemma lower_error: "lower E v = Inl e \<Longrightarrow> \<exists>msg. e = TypeError msg"
  by (cases v) auto

lemma matches_total:
  "(\<exists>r. matches E q m = Inr r) =
     (\<exists>b. batchNumber m = Str b \<and>
        (str_includes (toLowerCase E b) q
         \<or> (\<exists>n. medicineName m = Str n \<and>
              (str_includes (toLowerCase E n) q
               \<or> \<not> truthy (manufacturerName m) \<or> (\<exists>f. manufacturerName m = Str f)))))"
proof (cases "batchNumber m")
  case (Str b)
  show ?thesis
  proof (cases "medicineName m")
    case n: (Str n)
    show ?thesis
      by (cases "manufacturerName m") (auto simp: matches_def Str n)
  qed (auto simp: matches_def Str)
qed (auto simp: matches_def)

lemma matches_error: "matches E q m = Inl e \<Longrightarrow> \<exists>msg. e = TypeError msg"
  by (auto simp: matches_def split: sum.splits if_splits dest: lower_error)

lemma map_of_update_same: "map_of (AList.update k v al) k = Some v"
  by (simp add: AList.update_conv')

lemma registerMedicine_stores:
  assumes "registerMedicine E clk md s = Some (Inr (m, t, b), s')"
  shows "batchNumber m = batchNumber md \<and> medicineName m = medicineName md
         \<and> map_of (medicines s') (batchNumber md) = Some m"
proof (cases "map_of (medicines s) (batchNumber md) \<noteq> None")
  case True
  with assms show ?thesis by (simp add: registerMedicine_def)
next
  case False
  with assms show ?thesis
    by (auto simp: registerMedicine_def Let_def map_of_update_same elim!: await_SomeE)
qed

text \<open>
  Claim C9, as amended. \<^verbatim>\<open>search\<close> is total, that is returns a list for every string
  as the query, only if every stored record has a string \<^verbatim>\<open>batchNumber\<close> and a string
  \<^verbatim>\<open>medicineName\<close> (given that \<^verbatim>\<open>toLowerCase\<close> has results of every length, so that some
  query is longer than the batch number). For one query, \<^verbatim>\<open>search\<close> returns a list
  exactly when, for every stored record, the filter reaches a result before it reads a
  property that is not a string: \<^verbatim>\<open>batchNumber\<close> is a string, and either it contains
  the query (both in lower case), or \<^verbatim>\<open>medicineName\<close> is a string and either contains
  the query or \<^verbatim>\<open>manufacturerName\<close> is missing (or another value that counts as false)
  or a string. So a missing \<^verbatim>\<open>manufacturerName\<close> never makes \<^verbatim>\<open>search\<close> throw.
  Whatever \<^verbatim>\<open>search\<close> throws is a type error. For a stored record whose
  \<^verbatim>\<open>medicineName\<close> is missing, \<^verbatim>\<open>search\<close> throws a type error unless the record's
  \<^verbatim>\<open>batchNumber\<close> is a string that contains the query: then \<^verbatim>\<open>||\<close> stops at the batch
  number and \<^verbatim>\<open>medicineName\<close> is not read. \<^verbatim>\<open>registerMedicine\<close> stores the
  \<^verbatim>\<open>batchNumber\<close> and the \<^verbatim>\<open>medicineName\<close> it is given, whatever they are.
\<close>

theorem search_total_iff:
  "((\<forall>n. \<exists>q. n < length (toLowerCase E q)) \<longrightarrow>
      (\<forall>query. \<exists>ms. search E (Str query) s = Inr ms) \<longrightarrow>
        (\<forall>m\<in>set (getAllMedicines s).
           (\<exists>b. batchNumber m = Str b) \<and> (\<exists>n. medicineName m = Str n)))
   \<and> ((\<exists>ms. search E (Str query) s = Inr ms) =
      (\<forall>m\<in>set (getAllMedicines s).
         \<exists>b. batchNumber m = Str b \<and>
           (str_includes (toLowerCase E b) (toLowerCase E query)
            \<or> (\<exists>n. medicineName m = Str n \<and>
                 (str_includes (toLowerCase E n) (toLowerCase E query)
                  \<or> \<not> truthy (manufacturerName m) \<or> (\<exists>f. manufacturerName m = Str f))))))
   \<and> (\<forall>e. search E (Str query) s = Inl e \<longrightarrow> (\<exists>msg. e = TypeError msg))
   \<and> (\<forall>m\<in>set (getAllMedicines s).
        medicineName m = Undefined
        \<and> (\<forall>b. batchNumber m = Str b \<longrightarrow>
              \<not> str_includes (toLowerCase E b) (toLowerCase E query)) \<longrightarrow>
          (\<exists>msg. search E (Str query) s = Inl (TypeError msg)))
   \<and> (\<forall>clk md s0 m t b s1.
        registerMedicine E clk md s0 = Some (Inr (m, t, b), s1) \<longrightarrow>
          batchNumber m = batchNumber md \<and> medicineName m = medicineName md
          \<and> map_of (medicines s1) (batchNumber md) = Some m)"
proof (intro conjI)
  have iff: "(\<exists>ms. search E (Str q) s = Inr ms) =
      (\<forall>m\<in>set (getAllMedicines s).
         \<exists>b. batchNumber m = Str b \<and>
           (str_includes (toLowerCase E b) (toLowerCase E q)
            \<or> (\<exists>n. medicineName m = Str n \<and>
                 (str_includes (toLowerCase E n) (toLowerCase E q)
                  \<or> \<not> truthy (manufacturerName m) \<or> (\<exists>f. manufacturerName m = Str f)))))" for q
    by (simp add: search_def filter_throwing_total matches_total)
  from iff[of query]
  show "(\<exists>ms. search E (Str query) s = Inr ms) =
      (\<forall>m\<in>set (getAllMedicines s).
         \<exists>b. batchNumber m = Str b \<and>
           (str_includes (toLowerCase E b) (toLowerCase E query)
            \<or> (\<exists>n. medicineName m = Str n \<and>
                 (str_includes (toLowerCase E n) (toLowerCase E query)
                  \<or> \<not> truthy (manufacturerName m) \<or> (\<exists>f. manufacturerName m = Str f)))))" .
  show "(\<forall>n. \<exists>q. n < length (toLowerCase E q)) \<longrightarrow>
      (\<forall>query. \<exists>ms. search E (Str query) s = Inr ms) \<longrightarrow>
        (\<forall>m\<in>set (getAllMedicines s).
           (\<exists>b. batchNumber m = Str b) \<and> (\<exists>n. medicineName m = Str n))"
  proof (intro impI ballI)
    fix m
    assume long: "\<forall>n. \<exists>q. n < length (toLowerCase E q)"
      and total: "\<forall>query. \<exists>ms. search E (Str query) s = Inr ms"
      and m: "m \<in> set (getAllMedicines s)"
    from total iff[of "[]"] m obtain b where b: "batchNumber m = Str b" by blast
    from long obtain q where "length (toLowerCase E b) < length (toLowerCase E q)" by blast
    then have n: "\<not> str_includes (toLowerCase E b) (toLowerCase E q)"
      using str_includes_length[of "toLowerCase E b" "toLowerCase E q"] by auto
    from total iff[of q] m obtain b' where "batchNumber m = Str b'"
      and "str_includes (toLowerCase E b') (toLowerCase E q)
            \<or> (\<exists>n. medicineName m = Str n \<and>
                 (str_includes (toLowerCase E n) (toLowerCase E q)
                  \<or> \<not> truthy (manufacturerName m) \<or> (\<exists>f. manufacturerName m = Str f)))"
      by blast
    with b n have "\<exists>n. medicineName m = Str n" by auto
    with b show "(\<exists>b. batchNumber m = Str b) \<and> (\<exists>n. medicineName m = Str n)" by blast
  qed
  show err: "\<forall>e. search E (Str query) s = Inl e \<longrightarrow> (\<exists>msg. e = TypeError msg)"
  proof (intro allI impI)
    fix e assume "search E (Str query) s = Inl e"
    then have "\<exists>x\<in>set (getAllMedicines s). matches E (toLowerCase E query) x = Inl e"
      by (simp add: search_def filter_throwing_error)
    then show "\<exists>msg. e = TypeError msg" by (auto dest: matches_error)
  qed
  show "\<forall>m\<in>set (getAllMedicines s).
        medicineName m = Undefined
        \<and> (\<forall>b. batchNumber m = Str b \<longrightarrow>
              \<not> str_includes (toLowerCase E b) (toLowerCase E query)) \<longrightarrow>
          (\<exists>msg. search E (Str query) s = Inl (TypeError msg))"
  proof (intro ballI impI)
    fix m assume m: "m \<in> set (getAllMedicines s)"
      and h: "medicineName m = Undefined
        \<and> (\<forall>b. batchNumber m = Str b \<longrightarrow>
              \<not> str_includes (toLowerCase E b) (toLowerCase E query))"
    from h have "\<not> (\<exists>b. batchNumber m = Str b \<and>
           (str_includes (toLowerCase E b) (toLowerCase E query)
            \<or> (\<exists>n. medicineName m = Str n \<and>
                 (str_includes (toLowerCase E n) (toLowerCase E query)
                  \<or> \<not> truthy (manufacturerName m) \<or> (\<exists>f. manufacturerName m = Str f)))))"
      by auto
    with m iff[of query] have "\<nexists>ms. search E (Str query) s = Inr ms" by blast
    then obtain e where e: "search E (Str query) s = Inl e"
      by (cases "search E (Str query) s") auto
    with err obtain msg where "e = TypeError msg" by blast
    with e show "\<exists>msg. search E (Str query) s = Inl (TypeError msg)" by blast
  qed
  show "\<forall>clk md s0 m t b s1.
        registerMedicine E clk md s0 = Some (Inr (m, t, b), s1) \<longrightarrow>
          batchNumber m = batchNumber md \<and> medicineName m = medicineName md
          \<and> map_of (medicines s1) (batchNumber md) = Some m"
    using registerMedicine_stores by blast
qed

text \<open>The engine after the registration of a batch without a medicine name.\<close>

lemma nameless_medicines:
  "run sample_env [RegisterMedicine sample_clock nameless] fresh = Some nameless_engine
   \<and> map (\<lambda>m. (batchNumber m, medicineName m, manufacturerName m)) (getAllMedicines nameless_engine)
       = [(Str ''B-007'', Undefined, Str ''Acme Pharma'')]"
  by (simp add: nameless_engine_def nameless_def getAllMedicines_def engine_defs sample_defs)

lemma lower_samples:
  "toLowerCase sample_env ''B-007'' = ''b-007''" "toLowerCase sample_env ''B-00'' = ''b-00''"
  "toLowerCase sample_env ''Aspirin'' = ''aspirin''"
  by (simp_all add: sample_env_def sample_lower_def)

text \<open>
  The engine after the registration of batch B-001, whose record has strings in all three
  properties, and the length of the sample \<^verbatim>\<open>toLowerCase\<close>.
\<close>

lemma registered_medicines:
  "map (\<lambda>m. (batchNumber m, medicineName m, manufacturerName m)) (getAllMedicines registered_engine)
     = [(Str ''B-001'', Str ''Amoxicillin'', Str ''Acme Pharma'')]"
  by (simp add: registered_engine_def getAllMedicines_def engine_defs sample_defs)

lemma sample_lower_long: "\<forall>n. \<exists>q. n < length (toLowerCase sample_env q)"
proof
  fix n
  have "n < length (toLowerCase sample_env (replicate (Suc n) (CHR ''x'')))"
    by (simp add: sample_env_def sample_lower_def)
  then show "\<exists>q. n < length (toLowerCase sample_env q)" by blast
qed

theorem search_total_iff_witness:
  "(\<forall>n. \<exists>q. n < length (toLowerCase sample_env q))
   \<and> (\<forall>query. \<exists>ms. search sample_env (Str query) registered_engine = Inr ms)
   \<and> map (\<lambda>m. (batchNumber m, medicineName m)) (getAllMedicines registered_engine)
       = [(Str ''B-001'', Str ''Amoxicillin'')]
   \<and> run sample_env [RegisterMedicine sample_clock nameless] fresh = Some nameless_engine
   \<and> map (\<lambda>m. (batchNumber m, medicineName m)) (getAllMedicines nameless_engine)
       = [(Str ''B-007'', Undefined)]
   \<and> str_includes (toLowerCase sample_env ''B-007'') (toLowerCase sample_env ''B-00'')
   \<and> (\<exists>ms. search sample_env (Str ''B-00'') nameless_engine = Inr ms)
   \<and> \<not> str_includes (toLowerCase sample_env ''B-007'') (toLowerCase sample_env ''Aspirin'')
   \<and> (\<exists>msg. search sample_env (Str ''Aspirin'') nameless_engine = Inl (TypeError msg))"
proof -
  from nameless_medicines obtain m where g: "getAllMedicines nameless_engine = [m]"
    and m: "batchNumber m = Str ''B-007''" "medicineName m = Undefined" by auto
  from registered_medicines obtain r where gr: "getAllMedicines registered_engine = [r]"
    and r: "batchNumber r = Str ''B-001''" "medicineName r = Str ''Amoxicillin''"
      "manufacturerName r = Str ''Acme Pharma''" by auto
  note t1 = search_total_iff[of sample_env nameless_engine "''B-00''"]
  note t2 = search_total_iff[of sample_env nameless_engine "''Aspirin''"]
  have total: "\<forall>query. \<exists>ms. search sample_env (Str query) registered_engine = Inr ms"
  proof
    fix query
    note t = search_total_iff[of sample_env registered_engine query]
    have "\<forall>m\<in>set (getAllMedicines registered_engine).
         \<exists>b. batchNumber m = Str b \<and>
           (str_includes (toLowerCase sample_env b) (toLowerCase sample_env query)
            \<or> (\<exists>n. medicineName m = Str n \<and>
                 (str_includes (toLowerCase sample_env n) (toLowerCase sample_env query)
                  \<or> \<not> truthy (manufacturerName m) \<or> (\<exists>f. manufacturerName m = Str f))))"
      using gr r by simp
    with t show "\<exists>ms. search sample_env (Str query) registered_engine = Inr ms" by blast
  qed
  have "\<forall>m\<in>set (getAllMedicines nameless_engine).
         \<exists>b. batchNumber m = Str b \<and>
           (str_includes (toLowerCase sample_env b) (toLowerCase sample_env ''B-00'')
            \<or> (\<exists>n. medicineName m = Str n \<and>
                 (str_includes (toLowerCase sample_env n) (toLowerCase sample_env ''B-00'')
                  \<or> \<not> truthy (manufacturerName m) \<or> (\<exists>f. manufacturerName m = Str f))))"
    using g m by (simp add: lower_samples)
  with t1 have 1: "\<exists>ms. search sample_env (Str ''B-00'') nameless_engine = Inr ms" by blast
  have "m \<in> set (getAllMedicines nameless_engine)" using g by simp
  moreover have "medicineName m = Undefined
      \<and> (\<forall>b. batchNumber m = Str b \<longrightarrow>
            \<not> str_includes (toLowerCase sample_env b) (toLowerCase sample_env ''Aspirin''))"
    using m by (simp add: lower_samples)
  ultimately have 2: "\<exists>msg. search sample_env (Str ''Aspirin'') nameless_engine = Inl (TypeError msg)"
    using t2 by blast
  from nameless_medicines g m gr r 1 2 total sample_lower_long show ?thesis
    by (simp add: lower_samples)
qed

text \<open>
  Claim C9 as stated fails: the engine holds a record without a \<^verbatim>\<open>medicineName\<close>, and
  the search for \<^verbatim>\<open>B-00\<close>, which its batch number contains, returns that record.
\<close>

theorem search_with_missing_name_returns:
  "run sample_env [RegisterMedicine sample_clock nameless] fresh = Some nameless_engine
   \<and> map medicineName (getAllMedicines nameless_engine) = [Undefined]
   \<and> search sample_env (Str ''B-00'') nameless_engine = Inr (getAllMedicines nameless_engine)"
proof -
  from nameless_medicines obtain m where g: "getAllMedicines nameless_engine = [m]"
    and m: "batchNumber m = Str ''B-007''" "medicineName m = Undefined" by auto
  with nameless_medicines show ?thesis by (simp add: search_def matches_def lower_samples)
qed

section \<open>The six checks\<close>

lemma six_checks:
  assumes "check6 s m (check5 m (check4 m (check3 E now m (check2 batch ([c1], True))))) = (cs, auth)"
  shows "map name cs = [name c1, ''Batch Number Matches'', ''Medicine Not Expired'',
                        ''Not Previously Sold'', ''Supply Chain Valid'', ''Blockchain Integrity'']
       \<and> map passed cs = [passed c1, True, notExpired E now m, status m \<noteq> ''sold'',
                           supplied m, anchored s m]
       \<and> auth = (notExpired E now m \<and> status m \<noteq> ''sold'' \<and> anchored s m)
       \<and> (\<not> notExpired E now m \<longrightarrow>
            \<lparr>name = ''Medicine Not Expired'', passed = False,
             detail = ''EXPIRED on '' @ tpl (expiryDate m)\<rparr> \<in> set cs)
       \<and> (status m = ''sold'' \<longrightarrow>
            \<lparr>name = ''Not Previously Sold'', passed = False,
             detail = ''Medicine marked as SOLD''\<rparr> \<in> set cs)"
  using assms
  by (auto simp: check2_def check3_def check4_def check5_def check6_def supplied_def anchored_def
      split: option.splits if_splits)

lemma verifyRecord_result:
  assumes "verifyRecord E clk batch m (cs, auth) s = Some (Inr v, s')"
  shows "checks v = cs \<and> isAuthentic v = auth \<and> v_batchNumber v = batch"
  using assms
  by (auto simp: verifyRecord_def Let_def elim!: await_SomeE split: if_splits)

lemma await_createAlert_returns:
  assumes "chain s \<noteq> []" and "\<forall>b. \<exists>n\<ge>1. meets E (difficulty s) b n"
  shows "\<exists>r s'. await (createAlert E clk batch why s) (\<lambda>_ s3. Some (Inr R, g s3)) = Some (r, s')
                 \<and> (\<exists>v. r = Inr v)"
proof -
  from createAlert_returns[OF assms, of clk batch why]
  obtain a s1 where "createAlert E clk batch why s = Some (Inr a, s1)" by blast
  then show ?thesis by simp
qed

lemma verifyRecord_returns:
  assumes "chain s \<noteq> []" and "\<forall>b. \<exists>n\<ge>1. meets E (difficulty s) b n"
  shows "\<exists>r s'. verifyRecord E clk batch m ca s = Some (r, s') \<and> (\<exists>v. r = Inr v)"
proof (cases ca)
  case (Pair cs auth)
  show ?thesis
    unfolding Pair verifyRecord_def Let_def prod.case
    apply (rule await_addBlock_returns)
      apply (use assms in simp)
     apply (use assms in simp)
    subgoal for b
      apply (cases auth)
       apply (simp only: not_True_eq_False if_False)
       apply blast
      apply (simp only: not_False_eq_True if_True)
      apply (rule await_createAlert_returns)
       apply (use assms in simp)
      apply (use assms in simp)
      done
    done
qed

text \<open>
  Claim C2. When \<^verbatim>\<open>verifyMedicine\<close> returns for a batch that is in the medicine map, the
  list of checks has the six named checks in their order, each with the outcome of its
  own test, and \<^verbatim>\<open>isAuthentic\<close> is the conjunction of checks 3, 4 and 6. In particular,
  for a record that has expired and is sold, both \<^verbatim>\<open>Medicine Not Expired\<close> and
  \<^verbatim>\<open>Not Previously Sold\<close> are in the list as failed, and \<^verbatim>\<open>isAuthentic\<close> is false. For a
  batch that is not in the map the list has the failed first check only. The call
  returns a verdict whenever the chain is not empty and every block has a nonce from 1
  on that meets the difficulty.
\<close>

theorem verify_checks:
  "(\<forall>v s'. verifyMedicine E clk batch s = Some (Inr v, s') \<longrightarrow>
      (case map_of (medicines s) batch of
         None \<Rightarrow>
           checks v = [\<lparr>name = ''Blockchain Record Exists'', passed = False,
                        detail = ''NOT found on blockchain''\<rparr>]
           \<and> \<not> isAuthentic v
       | Some m \<Rightarrow>
           map name (checks v) =
             [''Blockchain Record Exists'', ''Batch Number Matches'', ''Medicine Not Expired'',
              ''Not Previously Sold'', ''Supply Chain Valid'', ''Blockchain Integrity'']
           \<and> map passed (checks v) =
               [True, True, notExpired E (clk 0) m, status m \<noteq> ''sold'', supplied m, anchored s m]
           \<and> isAuthentic v = (notExpired E (clk 0) m \<and> status m \<noteq> ''sold'' \<and> anchored s m)
           \<and> (\<not> notExpired E (clk 0) m \<and> status m = ''sold'' \<longrightarrow>
                \<lparr>name = ''Medicine Not Expired'', passed = False,
                 detail = ''EXPIRED on '' @ tpl (expiryDate m)\<rparr> \<in> set (checks v)
                \<and> \<lparr>name = ''Not Previously Sold'', passed = False,
                   detail = ''Medicine marked as SOLD''\<rparr> \<in> set (checks v)
                \<and> \<not> isAuthentic v)))
   \<and> (chain s \<noteq> [] \<and> (\<forall>b. \<exists>n\<ge>1. meets E (difficulty s) b n) \<longrightarrow>
        (\<exists>v s'. verifyMedicine E clk batch s = Some (Inr v, s')))"
proof (intro conjI allI impI)
  fix v s' assume r: "verifyMedicine E clk batch s = Some (Inr v, s')"
  show "case map_of (medicines s) batch of
         None \<Rightarrow>
           checks v = [\<lparr>name = ''Blockchain Record Exists'', passed = False,
                        detail = ''NOT found on blockchain''\<rparr>]
           \<and> \<not> isAuthentic v
       | Some m \<Rightarrow>
           map name (checks v) =
             [''Blockchain Record Exists'', ''Batch Number Matches'', ''Medicine Not Expired'',
              ''Not Previously Sold'', ''Supply Chain Valid'', ''Blockchain Integrity'']
           \<and> map passed (checks v) =
               [True, True, notExpired E (clk 0) m, status m \<noteq> ''sold'', supplied m, anchored s m]
           \<and> isAuthentic v = (notExpired E (clk 0) m \<and> status m \<noteq> ''sold'' \<and> anchored s m)
           \<and> (\<not> notExpired E (clk 0) m \<and> status m = ''sold'' \<longrightarrow>
                \<lparr>name = ''Medicine Not Expired'', passed = False,
                 detail = ''EXPIRED on '' @ tpl (expiryDate m)\<rparr> \<in> set (checks v)
                \<and> \<lparr>name = ''Not Previously Sold'', passed = False,
                   detail = ''Medicine marked as SOLD''\<rparr> \<in> set (checks v)
                \<and> \<not> isAuthentic v)"
  proof (cases "map_of (medicines s) batch")
    case None
    with r have "verifyMissing E clk batch s = Some (Inr v, s')" by (simp add: verifyMedicine_def)
    then have "checks v = [\<lparr>name = ''Blockchain Record Exists'', passed = False,
                        detail = ''NOT found on blockchain''\<rparr>] \<and> \<not> isAuthentic v"
      by (auto simp: verifyMissing_def Let_def elim!: await_SomeE)
    with None show ?thesis by simp
  next
    case (Some m)
    obtain cs auth where c: "check6 s m (check5 m (check4 m (check3 E (clk 0) m (check2 batch
        ([\<lparr>name = ''Blockchain Record Exists'', passed = True,
           detail = ''Medicine found on blockchain''\<rparr>], True))))) = (cs, auth)"
      by (cases "check6 s m (check5 m (check4 m (check3 E (clk 0) m (check2 batch
        ([\<lparr>name = ''Blockchain Record Exists'', passed = True,
           detail = ''Medicine found on blockchain''\<rparr>], True)))))")
    with r Some have "verifyRecord E clk batch m (cs, auth) s = Some (Inr v, s')"
      by (simp add: verifyMedicine_def)
    from verifyRecord_result[OF this] six_checks[OF c] Some show ?thesis by simp
  qed
next
  assume a: "chain s \<noteq> [] \<and> (\<forall>b. \<exists>n\<ge>1. meets E (difficulty s) b n)"
  show "\<exists>v s'. verifyMedicine E clk batch s = Some (Inr v, s')"
  proof (cases "map_of (medicines s) batch")
    case None
    from a verifyMissing_returns[of s E clk batch] None show ?thesis
      by (simp add: verifyMedicine_def) blast
  next
    case (Some m)
    from a verifyRecord_returns[of s E clk batch m] Some show ?thesis
      by (simp add: verifyMedicine_def) blast
  qed
qed

text \<open>The engine loaded with a record that is sold and has expired.\<close>

lemma sold_engine_facts:
  "chain sold_engine \<noteq> [] \<and> difficulty sold_engine = 2
   \<and> map_of (medicines sold_engine) (Str ''B-OLD'') = Some sold_expired
   \<and> \<not> notExpired sample_env (sample_clock 0) sold_expired \<and> status sold_expired = ''sold''
   \<and> supplied sold_expired \<and> anchored sold_engine sold_expired"
  by (simp add: sold_engine_def sold_expired_def supplied_def anchored_def engine_defs sample_defs)

theorem verify_checks_witness:
  "map_of (medicines sold_engine) (Str ''B-OLD'') = Some sold_expired
   \<and> \<not> notExpired sample_env (sample_clock 0) sold_expired \<and> status sold_expired = ''sold''
   \<and> (\<exists>v s'. verifyMedicine sample_env sample_clock (Str ''B-OLD'') sold_engine = Some (Inr v, s')
         \<and> map passed (checks v) = [True, True, False, False, True, True]
         \<and> \<lparr>name = ''Medicine Not Expired'', passed = False,
            detail = ''EXPIRED on 2020-01-01''\<rparr> \<in> set (checks v)
         \<and> \<lparr>name = ''Not Previously Sold'', passed = False,
            detail = ''Medicine marked as SOLD''\<rparr> \<in> set (checks v)
         \<and> \<not> isAuthentic v)"
proof -
  note f = sold_engine_facts
  from f sample_minable have m: "chain sold_engine \<noteq> [] \<and> (\<forall>b. \<exists>n\<ge>1. meets sample_env (difficulty sold_engine) b n)"
    by simp
  note t = verify_checks[of sample_env sample_clock "Str ''B-OLD''" sold_engine]
  from t m obtain v s' where r: "verifyMedicine sample_env sample_clock (Str ''B-OLD'') sold_engine = Some (Inr v, s')"
    by blast
  with t have "case map_of (medicines sold_engine) (Str ''B-OLD'') of
         None \<Rightarrow>
           checks v = [\<lparr>name = ''Blockchain Record Exists'', passed = False,
                        detail = ''NOT found on blockchain''\<rparr>]
           \<and> \<not> isAuthentic v
       | Some m \<Rightarrow>
           map name (checks v) =
             [''Blockchain Record Exists'', ''Batch Number Matches'', ''Medicine Not Expired'',
              ''Not Previously Sold'', ''Supply Chain Valid'', ''Blockchain Integrity'']
           \<and> map passed (checks v) =
               [True, True, notExpired sample_env (sample_clock 0) m, status m \<noteq> ''sold'', supplied m, anchored sold_engine m]
           \<and> isAuthentic v = (notExpired sample_env (sample_clock 0) m \<and> status m \<noteq> ''sold'' \<and> anchored sold_engine m)
           \<and> (\<not> notExpired sample_env (sample_clock 0) m \<and> status m = ''sold'' \<longrightarrow>
                \<lparr>name = ''Medicine Not Expired'', passed = False,
                 detail = ''EXPIRED on '' @ tpl (expiryDate m)\<rparr> \<in> set (checks v)
                \<and> \<lparr>name = ''Not Previously Sold'', passed = False,
                   detail = ''Medicine marked as SOLD''\<rparr> \<in> set (checks v)
                \<and> \<not> isAuthentic v)" by blast
  with f have "map passed (checks v) = [True, True, False, False, True, True]
         \<and> \<lparr>name = ''Medicine Not Expired'', passed = False,
            detail = ''EXPIRED on '' @ tpl (expiryDate sold_expired)\<rparr> \<in> set (checks v)
         \<and> \<lparr>name = ''Not Previously Sold'', passed = False,
            detail = ''Medicine marked as SOLD''\<rparr> \<in> set (checks v)
         \<and> \<not> isAuthentic v" by simp
  moreover have "tpl (expiryDate sold_expired) = ''2020-01-01''" by (simp add: sold_expired_def)
  ultimately show ?thesis using r f by auto
qed

section \<open>The engine and the contract\<close>

text \<open>
  Claim C4 at a failing input. Batch B-EXP, with the expiry date 2020-01-01, is
  registered and then verified on 2025-11-02. The engine returns \<^verbatim>\<open>isAuthentic = false\<close>;
  the contract, which never reads the expiry date, returns \<^verbatim>\<open>true\<close>.
\<close>

theorem verdicts_differ_on_expired:
  "expired_engine_verdict = Some (Inr False)
   \<and> expired_contract_verdict = Inr (True, ''Medicine is AUTHENTIC. All blockchain checks passed.'')"
proof
  show "expired_engine_verdict = Some (Inr False)"
    by (simp add: expired_engine_verdict_def expired_batch_def engine_defs sample_defs)
  show "expired_contract_verdict = Inr (True, ''Medicine is AUTHENTIC. All blockchain checks passed.'')"
    by (simp add: expired_contract_verdict_def contract_defs)
qed

text \<open>
  Claim C6 at a failing input. \<^verbatim>\<open>registerMedicine\<close> of the engine with an empty batch
  number on the engine that holds the genesis block only returns normally, appends a
  block and stores a record under the empty key; the contract rejects the same
  registration.
\<close>

theorem register_empty_batch_accepted:
  "map_option (\<lambda>(r, s'). (isl r, length (chain s'), map fst (medicines s')))
     (registerMedicine sample_env sample_clock unnamed_batch fresh) = Some (False, 2, [Str []])
   \<and> MediChain_registerMedicine sample_msg ''Amoxicillin'' [] ''MFR-1'' ''Acme Pharma''
        ''2025-01-01'' ''2030-01-01'' (MediChain_constructor sample_msg)
       = Inl (Revert ''Batch number cannot be empty'')"
proof
  show "map_option (\<lambda>(r, s'). (isl r, length (chain s'), map fst (medicines s')))
     (registerMedicine sample_env sample_clock unnamed_batch fresh) = Some (False, 2, [Str []])"
    by (simp add: unnamed_batch_def engine_defs sample_defs)
  show "MediChain_registerMedicine sample_msg ''Amoxicillin'' [] ''MFR-1'' ''Acme Pharma''
        ''2025-01-01'' ''2030-01-01'' (MediChain_constructor sample_msg)
       = Inl (Revert ''Batch number cannot be empty'')"
    by (simp add: contract_defs)
qed

end

